theory Spec2Isabelle
  imports Complex_Main
begin

section \<open>The touch handler of shared/js/touch-optimizer.js\<close>

text \<open>
  The gesture recogniser \<^verbatim>\<open>TouchHandler\<close> keeps two mutable objects, \<^verbatim>\<open>touchState\<close> and
  \<^verbatim>\<open>gestureState\<close>, arms one \<^verbatim>\<open>setTimeout\<close> callback per contact start and reports what
  it recognises through \<^verbatim>\<open>CustomEvent\<close>s. The embedding passes the two objects, the host's
  table of pending long-press callbacks and the list of everything the handler has sent
  out as one explicit \<open>world\<close> value.

  JavaScript numbers are modelled by \<open>real\<close>: \<^verbatim>\<open>Math.sqrt\<close> is \<open>sqrt\<close>, and the only division
  whose divisor is not guarded (the swipe velocity) goes through \<open>js_div\<close>, which keeps
  the infinities and NaN that IEEE division by zero produces.
\<close>

subsection \<open>Configuration\<close>

record config =
  SWIPE_THRESHOLD :: real
  TAP_THRESHOLD :: real
  LONG_PRESS_DURATION :: real
  ENABLE_HAPTIC_FEEDBACK :: bool
  ENABLE_VISUAL_FEEDBACK :: bool
  ENABLE_PINCH_ZOOM :: bool
  ENABLE_ROTATE :: bool
  enableConsole :: bool

text \<open>
  The literal \<^verbatim>\<open>TouchConfig\<close> of the source. \<^verbatim>\<open>enableConsole\<close> is not a key of the literal;
  \<^verbatim>\<open>dispatchGestureEvent\<close> tests \<^verbatim>\<open>TouchConfig.enableConsole !== false\<close>, which holds while
  the key is absent.
\<close>

definition TouchConfig :: config where
  "TouchConfig =
     \<lparr> SWIPE_THRESHOLD = 30, TAP_THRESHOLD = 10, LONG_PRESS_DURATION = 500,
       ENABLE_HAPTIC_FEEDBACK = True, ENABLE_VISUAL_FEEDBACK = True,
       ENABLE_PINCH_ZOOM = True, ENABLE_ROTATE = True, enableConsole = True \<rparr>"

subsection \<open>Data\<close>

record touch =
  clientX :: real
  clientY :: real

text \<open>
  A DOM touch event: the list \<^verbatim>\<open>event.touches\<close> and \<^verbatim>\<open>event.target\<close> (an element, named by a
  number, or nothing).
\<close>

record touch_event =
  touches :: "touch list"
  target :: "nat option"

record touch_state =
  startX :: real
  startY :: real
  startTime :: real
  currentX :: real
  currentY :: real
  isTouching :: bool
  touchCount :: nat
  lastTapTime :: real
  longPressTimer :: "nat option"

record gesture_state =
  scale :: real
  rotation :: real
  initialDistance :: real
  initialAngle :: real

datatype js_number = Finite real | PosInfinity | NegInfinity | NaN

definition js_div :: "real \<Rightarrow> real \<Rightarrow> js_number" where
  "js_div a b =
     (if b \<noteq> 0 then Finite (a / b)
      else if 0 < a then PosInfinity
      else if a < 0 then NegInfinity
      else NaN)"

text \<open>\<^verbatim>\<open>Math.atan2(y, x)\<close> on real arguments (signed zeros are not distinguished).\<close>

definition atan2 :: "real \<Rightarrow> real \<Rightarrow> real" where
  "atan2 y x =
     (if 0 < x then arctan (y / x)
      else if x < 0 then (if 0 \<le> y then arctan (y / x) + pi else arctan (y / x) - pi)
      else if 0 < y then pi / 2
      else if y < 0 then - (pi / 2)
      else 0)"

text \<open>The \<^verbatim>\<open>data\<close> object handed to \<^verbatim>\<open>dispatchGestureEvent\<close>, one shape per call site.\<close>

datatype gesture_data =
  PointData real real real
    \<comment> \<open>\<^verbatim>\<open>{x, y, duration}\<close>: tap, doubletap, longpress\<close>
| SwipeData string real real real real js_number real
    \<comment> \<open>\<^verbatim>\<open>{direction, deltaX, deltaY, distance, angle, velocity, duration}\<close>\<close>
| PinchData real real real
    \<comment> \<open>\<^verbatim>\<open>{scale, centerX, centerY}\<close>\<close>
| RotateData real real real
    \<comment> \<open>\<^verbatim>\<open>{rotation, centerX, centerY}\<close>\<close>

text \<open>
  Everything the handler sends to its host, in the order sent.
  \<open>GestureEvent ty data ts gs stamp\<close> is the \<^verbatim>\<open>CustomEvent\<close> \<^verbatim>\<open>game:gesture:ty\<close> dispatched on the
  document, with the copies of \<^verbatim>\<open>touchState\<close> and \<^verbatim>\<open>gestureState\<close> and the time stamp of its
  \<^verbatim>\<open>detail\<close>; \<open>TouchEvent ty el ts gs\<close> is \<^verbatim>\<open>game:ty\<close> dispatched on element \<open>el\<close>;
  \<open>Vibrate d\<close> is the request \<^verbatim>\<open>navigator.vibrate(d)\<close> (made where the browser has one);
  the two feedback entries are the \<^verbatim>\<open>div\<close> elements appended to the document body (the
  timeouts that remove them again run no handler code and are left out).
\<close>

datatype emission =
  GestureEvent string gesture_data touch_state gesture_state real
| TouchEvent string nat touch_state gesture_state
| ConsoleLog string gesture_data
| Vibrate nat
| TouchFeedback real real
| LongPressFeedback real real

text \<open>
  \<open>timers\<close> is the host's table of long-press callbacks that are armed and have neither
  run nor been cleared: handle and deadline. \<open>lastTimerId\<close> is the last handle the host
  gave out; handles are positive integers, never reused.
\<close>

record world =
  touchState :: touch_state
  gestureState :: gesture_state
  timers :: "(nat \<times> real) list"
  lastTimerId :: nat
  emitted :: "emission list"

text \<open>The object literals of \<^verbatim>\<open>TouchHandler\<close>, with no callback armed and nothing sent.\<close>

definition TouchHandler :: world where
  "TouchHandler =
     \<lparr> touchState =
         \<lparr> startX = 0, startY = 0, startTime = 0, currentX = 0, currentY = 0,
           isTouching = False, touchCount = 0, lastTapTime = 0, longPressTimer = None \<rparr>,
       gestureState =
         \<lparr> scale = 1, rotation = 0, initialDistance = 0, initialAngle = 0 \<rparr>,
       timers = [], lastTimerId = 0, emitted = [] \<rparr>"

text \<open>
  \<^verbatim>\<open>Date.now()\<close> is read up to three times while one handler runs. A handler that reads it
  more than once takes a \<open>clock\<close>: \<open>clk k\<close> is the value of the read number \<open>k\<close> (from 0)
  of that run.
\<close>

type_synonym clock = "nat \<Rightarrow> real"

text \<open>A clock all of whose reads return \<open>t\<close>.\<close>

definition always :: "real \<Rightarrow> clock" where
  "always t = (\<lambda>k. t)"

subsection \<open>Host services\<close>

definition emit :: "emission \<Rightarrow> world \<Rightarrow> world" where
  "emit out w = w\<lparr>emitted := emitted w @ [out]\<rparr>"

text \<open>\<^verbatim>\<open>setTimeout\<close> at host time \<open>now\<close>: a fresh positive handle; a negative delay counts as 0.\<close>

definition setTimeout :: "real \<Rightarrow> real \<Rightarrow> world \<Rightarrow> nat \<times> world" where
  "setTimeout delay now w =
     (let h = Suc (lastTimerId w)
      in (h, w\<lparr>timers := timers w @ [(h, now + max 0 delay)], lastTimerId := h\<rparr>))"

definition clearTimeout :: "nat \<Rightarrow> world \<Rightarrow> world" where
  "clearTimeout h w = w\<lparr>timers := filter (\<lambda>p. fst p \<noteq> h) (timers w)\<rparr>"

subsection \<open>Feedback and event dispatch\<close>

definition vibrate :: "config \<Rightarrow> nat \<Rightarrow> world \<Rightarrow> world" where
  "vibrate cfg duration w =
     (if \<not> ENABLE_HAPTIC_FEEDBACK cfg then w else emit (Vibrate duration) w)"

definition showTouchFeedback :: "config \<Rightarrow> real \<Rightarrow> real \<Rightarrow> world \<Rightarrow> world" where
  "showTouchFeedback cfg x y w =
     (if \<not> ENABLE_VISUAL_FEEDBACK cfg then w else emit (TouchFeedback x y) w)"

definition showLongPressFeedback :: "config \<Rightarrow> real \<Rightarrow> real \<Rightarrow> world \<Rightarrow> world" where
  "showLongPressFeedback cfg x y w =
     (if \<not> ENABLE_VISUAL_FEEDBACK cfg then w else emit (LongPressFeedback x y) w)"

definition dispatchTouchEvent :: "string \<Rightarrow> touch_event \<Rightarrow> world \<Rightarrow> world" where
  "dispatchTouchEvent ty originalEvent w =
     (case target originalEvent of
        None \<Rightarrow> w
      | Some el \<Rightarrow> emit (TouchEvent ty el (touchState w) (gestureState w)) w)"

definition dispatchGestureEvent ::
    "config \<Rightarrow> real \<Rightarrow> string \<Rightarrow> gesture_data \<Rightarrow> world \<Rightarrow> world" where
  "dispatchGestureEvent cfg stamp gestureType data w =
     (let w1 = emit (GestureEvent gestureType data (touchState w) (gestureState w) stamp) w
      in if enableConsole cfg then emit (ConsoleLog gestureType data) w1 else w1)"

subsection \<open>The long-press timer\<close>

text \<open>
  The statement
  \<^verbatim>\<open>if (this.touchState.longPressTimer) { clearTimeout(...); this.touchState.longPressTimer = null; }\<close>
  that \<^verbatim>\<open>handleTouchMove\<close>, \<^verbatim>\<open>handleTouchEnd\<close> and \<^verbatim>\<open>handleTouchCancel\<close> each contain. A handle
  is truthy when it is not 0.
\<close>

definition clearLongPressTimer :: "world \<Rightarrow> world" where
  "clearLongPressTimer w =
     (case longPressTimer (touchState w) of
        None \<Rightarrow> w
      | Some h \<Rightarrow>
          if h = 0 then w
          else touchState_update (\<lambda>ts. ts\<lparr>longPressTimer := None\<rparr>) (clearTimeout h w))"

definition triggerLongPress :: "config \<Rightarrow> real \<Rightarrow> world \<Rightarrow> world" where
  "triggerLongPress cfg stamp w =
     (let w1 = dispatchGestureEvent cfg stamp ''longpress''
                 (PointData (currentX (touchState w)) (currentY (touchState w))
                    (LONG_PRESS_DURATION cfg)) w;
          w2 = (if ENABLE_HAPTIC_FEEDBACK cfg then vibrate cfg 50 w1 else w1)
      in if ENABLE_VISUAL_FEEDBACK cfg
         then showLongPressFeedback cfg (currentX (touchState w2)) (currentY (touchState w2)) w2
         else w2)"

subsection \<open>Two-contact gestures\<close>

definition handleMultiTouchStart :: "touch \<Rightarrow> touch \<Rightarrow> world \<Rightarrow> world" where
  "handleMultiTouchStart touch1 touch2 w =
     (let dx = clientX touch2 - clientX touch1;
          dy = clientY touch2 - clientY touch1
      in gestureState_update
           (\<lambda>gs. gs\<lparr>initialDistance := sqrt (dx * dx + dy * dy),
                    initialAngle := atan2 dy dx, scale := 1, rotation := 0\<rparr>) w)"

definition handleMultiTouchMove :: "config \<Rightarrow> clock \<Rightarrow> touch \<Rightarrow> touch \<Rightarrow> world \<Rightarrow> world" where
  "handleMultiTouchMove cfg clk touch1 touch2 w =
     (let dx = clientX touch2 - clientX touch1;
          dy = clientY touch2 - clientY touch1;
          currentDistance = sqrt (dx * dx + dy * dy);
          currentAngle = atan2 dy dx;
          w1 = (if 0 < initialDistance (gestureState w)
                then gestureState_update
                       (\<lambda>gs. gs\<lparr>scale := currentDistance / initialDistance gs\<rparr>) w
                else w);
          w2 = (if ENABLE_ROTATE cfg
                then gestureState_update
                       (\<lambda>gs. gs\<lparr>rotation := currentAngle - initialAngle gs\<rparr>) w1
                else w1);
          w3 = dispatchGestureEvent cfg (clk 0) ''pinch''
                 (PinchData (scale (gestureState w2))
                    ((clientX touch1 + clientX touch2) / 2)
                    ((clientY touch1 + clientY touch2) / 2)) w2
      in if ENABLE_ROTATE cfg
         then dispatchGestureEvent cfg (clk 1) ''rotate''
                (RotateData (rotation (gestureState w3))
                   ((clientX touch1 + clientX touch2) / 2)
                   ((clientY touch1 + clientY touch2) / 2)) w3
         else w3)"

subsection \<open>Tap and swipe\<close>

definition handleTap :: "config \<Rightarrow> real \<Rightarrow> real \<Rightarrow> real \<Rightarrow> world \<Rightarrow> world" where
  "handleTap cfg currentTime stamp duration w =
     (let timeSinceLastTap = currentTime - lastTapTime (touchState w);
          w1 = (if timeSinceLastTap < 300
                then touchState_update (\<lambda>ts. ts\<lparr>lastTapTime := 0\<rparr>)
                       (dispatchGestureEvent cfg stamp ''doubletap''
                          (PointData (currentX (touchState w)) (currentY (touchState w))
                             duration) w)
                else touchState_update (\<lambda>ts. ts\<lparr>lastTapTime := currentTime\<rparr>)
                       (dispatchGestureEvent cfg stamp ''tap''
                          (PointData (currentX (touchState w)) (currentY (touchState w))
                             duration) w))
      in if ENABLE_HAPTIC_FEEDBACK cfg then vibrate cfg 20 w1 else w1)"

definition handleSwipe ::
    "config \<Rightarrow> real \<Rightarrow> real \<Rightarrow> real \<Rightarrow> real \<Rightarrow> real \<Rightarrow> world \<Rightarrow> world" where
  "handleSwipe cfg now stamp deltaX deltaY distance w =
     (let angle = atan2 deltaY deltaX * (180 / pi);
          duration = now - startTime (touchState w);
          velocity = js_div distance duration;
          direction =
            (if \<bar>deltaX\<bar> > \<bar>deltaY\<bar>
             then (if deltaX > 0 then ''right'' else ''left'')
             else (if deltaY > 0 then ''down'' else ''up''));
          w1 = dispatchGestureEvent cfg stamp ''swipe''
                 (SwipeData direction deltaX deltaY distance angle velocity duration) w
      in if ENABLE_HAPTIC_FEEDBACK cfg then vibrate cfg 30 w1 else w1)"

subsection \<open>The four handlers\<close>

text \<open>
  \<open>None\<close> is the \<^verbatim>\<open>TypeError\<close> of reading \<^verbatim>\<open>clientX\<close> of \<^verbatim>\<open>event.touches[0]\<close> when the list is
  empty; it is raised before the handler has written anything. The test
  \<^verbatim>\<open>event.touches.length === 2\<close> is the list pattern \<open>[touch1, touch2]\<close>, which also binds the
  \<^verbatim>\<open>touches[0]\<close> and \<^verbatim>\<open>touches[1]\<close> that the two-contact functions read.
\<close>

definition handleTouchStart :: "config \<Rightarrow> real \<Rightarrow> touch_event \<Rightarrow> world \<Rightarrow> world option" where
  "handleTouchStart cfg now event w =
     (case touches event of
        [] \<Rightarrow> None
      | touch # _ \<Rightarrow>
          (let w1 = touchState_update
                      (\<lambda>ts. ts\<lparr>startX := clientX touch, startY := clientY touch,
                               startTime := now,
                               currentX := clientX touch, currentY := clientY touch,
                               isTouching := True,
                               touchCount := length (touches event)\<rparr>) w;
               (h, w2) = setTimeout (LONG_PRESS_DURATION cfg) now w1;
               w3 = touchState_update (\<lambda>ts. ts\<lparr>longPressTimer := Some h\<rparr>) w2;
               w4 = (case touches event of
                       [touch1, touch2] \<Rightarrow>
                         if ENABLE_PINCH_ZOOM cfg then handleMultiTouchStart touch1 touch2 w3
                         else w3
                     | _ \<Rightarrow> w3);
               w5 = (if ENABLE_HAPTIC_FEEDBACK cfg then vibrate cfg 10 w4 else w4);
               w6 = (if ENABLE_VISUAL_FEEDBACK cfg
                     then showTouchFeedback cfg (clientX touch) (clientY touch) w5 else w5)
           in Some (dispatchTouchEvent ''touchstart'' event w6)))"

definition handleTouchMove :: "config \<Rightarrow> clock \<Rightarrow> touch_event \<Rightarrow> world \<Rightarrow> world option" where
  "handleTouchMove cfg clk event w =
     (if \<not> isTouching (touchState w) then Some w
      else
        case touches event of
          [] \<Rightarrow> None
        | touch # _ \<Rightarrow>
            (let w1 = touchState_update
                        (\<lambda>ts. ts\<lparr>currentX := clientX touch, currentY := clientY touch\<rparr>) w;
                 w2 = clearLongPressTimer w1;
                 w3 = (case touches event of
                         [touch1, touch2] \<Rightarrow>
                           if ENABLE_PINCH_ZOOM cfg
                           then handleMultiTouchMove cfg clk touch1 touch2 w2
                           else w2
                       | _ \<Rightarrow> w2)
             in Some (dispatchTouchEvent ''touchmove'' event w3)))"

definition handleTouchEnd :: "config \<Rightarrow> clock \<Rightarrow> touch_event \<Rightarrow> world \<Rightarrow> world" where
  "handleTouchEnd cfg clk event w =
     (if \<not> isTouching (touchState w) then w
      else
        (let endTime = clk 0;
             duration = endTime - startTime (touchState w);
             deltaX = currentX (touchState w) - startX (touchState w);
             deltaY = currentY (touchState w) - startY (touchState w);
             distance = sqrt (deltaX * deltaX + deltaY * deltaY);
             w1 = clearLongPressTimer w;
             w2 = (if distance < TAP_THRESHOLD cfg \<and> duration < 300
                   then handleTap cfg (clk 1) (clk 2) duration w1
                   else if distance \<ge> SWIPE_THRESHOLD cfg \<and> duration < 500
                   then handleSwipe cfg (clk 1) (clk 2) deltaX deltaY distance w1
                   else w1);
             w3 = touchState_update (\<lambda>ts. ts\<lparr>isTouching := False, touchCount := 0\<rparr>) w2
         in dispatchTouchEvent ''touchend'' event w3))"

definition handleTouchCancel :: "touch_event \<Rightarrow> world \<Rightarrow> world" where
  "handleTouchCancel event w =
     (let w1 = clearLongPressTimer w;
          w2 = touchState_update (\<lambda>ts. ts\<lparr>isTouching := False, touchCount := 0\<rparr>) w1
      in dispatchTouchEvent ''touchcancel'' event w2)"

subsection \<open>The host's event loop\<close>

text \<open>
  The callback armed by \<^verbatim>\<open>handleTouchStart\<close> is \<^verbatim>\<open>() => this.triggerLongPress(event)\<close>. The host
  runs the callback of handle \<open>h\<close> at time \<open>now\<close> only if it is still in the table and its
  deadline has come, and takes it out of the table; \<open>None\<close> means that the callback cannot
  run then.
\<close>

definition timerFires :: "config \<Rightarrow> real \<Rightarrow> nat \<Rightarrow> world \<Rightarrow> world option" where
  "timerFires cfg now h w =
     (case map_of (timers w) h of
        None \<Rightarrow> None
      | Some deadline \<Rightarrow>
          if deadline \<le> now then Some (triggerLongPress cfg now (clearTimeout h w))
          else None)"

datatype task =
  TouchStart touch_event
| TouchMove touch_event
| TouchEnd touch_event
| TouchCancel touch_event
| TimerFires nat

text \<open>One task of the event loop at time \<open>now\<close>; every clock read of the task returns \<open>now\<close>.\<close>

fun step :: "config \<Rightarrow> real \<times> task \<Rightarrow> world \<Rightarrow> world option" where
  "step cfg (now, TouchStart event) w = handleTouchStart cfg now event w"
| "step cfg (now, TouchMove event) w = handleTouchMove cfg (always now) event w"
| "step cfg (now, TouchEnd event) w = Some (handleTouchEnd cfg (always now) event w)"
| "step cfg (now, TouchCancel event) w = Some (handleTouchCancel event w)"
| "step cfg (now, TimerFires h) w = timerFires cfg now h w"

fun run :: "config \<Rightarrow> (real \<times> task) list \<Rightarrow> world \<Rightarrow> world option" where
  "run cfg [] w = Some w"
| "run cfg (t # ts) w = (case step cfg t w of None \<Rightarrow> None | Some w' \<Rightarrow> run cfg ts w')"

subsection \<open>Observations\<close>

text \<open>The gesture events among what was sent: type and data, in order.\<close>

fun gestureOf :: "emission \<Rightarrow> (string \<times> gesture_data) option" where
  "gestureOf (GestureEvent ty data ts gs stamp) = Some (ty, data)"
| "gestureOf _ = None"

definition gestures :: "emission list \<Rightarrow> (string \<times> gesture_data) list" where
  "gestures outs = List.map_filter gestureOf outs"

text \<open>What a handler run from \<open>w\<close> to \<open>w'\<close> has sent.\<close>

definition sent :: "world \<Rightarrow> world \<Rightarrow> emission list" where
  "sent w w' = drop (length (emitted w)) (emitted w')"

text \<open>
  The gestures sent while the tasks run from \<open>w\<close>; \<open>None\<close> if a task raises or a timer task
  names a callback that cannot run at its time.
\<close>

definition observe :: "config \<Rightarrow> (real \<times> task) list \<Rightarrow> world \<Rightarrow> (string \<times> gesture_data) list option" where
  "observe cfg tasks w =
     (case run cfg tasks w of None \<Rightarrow> None | Some w' \<Rightarrow> Some (gestures (sent w w')))"

text \<open>
  What holds of the timer handles in every world the event loop reaches from
  \<open>TouchHandler\<close>: the host has issued every handle in its table and the one stored in
  \<^verbatim>\<open>touchState.longPressTimer\<close>, and a handle is positive.
\<close>

fun issued :: "nat \<Rightarrow> nat option \<Rightarrow> bool" where
  "issued n None = True"
| "issued n (Some h) = (0 < h \<and> h \<le> n)"

definition handlesIssued :: "world \<Rightarrow> bool" where
  "handlesIssued w =
     (list_all (\<lambda>p. issued (lastTimerId w) (Some (fst p))) (timers w) \<and>
      issued (lastTimerId w) (longPressTimer (touchState w)))"

text \<open>Events for the scenarios: one contact, two contacts, and the last finger lifted.\<close>

definition contactAt :: "real \<Rightarrow> real \<Rightarrow> touch_event" where
  "contactAt x y = \<lparr>touches = [\<lparr>clientX = x, clientY = y\<rparr>], target = Some 0\<rparr>"

definition contactsAt :: "real \<Rightarrow> real \<Rightarrow> real \<Rightarrow> real \<Rightarrow> touch_event" where
  "contactsAt x1 y1 x2 y2 =
     \<lparr>touches = [\<lparr>clientX = x1, clientY = y1\<rparr>, \<lparr>clientX = x2, clientY = y2\<rparr>],
      target = Some 0\<rparr>"

definition released :: touch_event where
  "released = \<lparr>touches = [], target = Some 0\<rparr>"

text \<open>
  The displacement of the contact since its start, as \<^verbatim>\<open>handleTouchEnd\<close> computes it from
  \<^verbatim>\<open>touchState\<close>: \<^verbatim>\<open>deltaX\<close>, \<^verbatim>\<open>deltaY\<close> and \<^verbatim>\<open>distance\<close>.
\<close>

definition movedX :: "world \<Rightarrow> real" where
  "movedX w = currentX (touchState w) - startX (touchState w)"

definition movedY :: "world \<Rightarrow> real" where
  "movedY w = currentY (touchState w) - startY (touchState w)"

definition movedDistance :: "world \<Rightarrow> real" where
  "movedDistance w = sqrt (movedX w * movedX w + movedY w * movedY w)"

text \<open>
  Worlds for the examples. \<open>pressed x y t lastTap\<close>: one contact went down at \<open>(x, y)\<close> at time
  \<open>t\<close> under \<open>TouchConfig\<close> and has not moved; its long-press callback is armed.
  \<open>dragged x y t x' y'\<close>: the contact has since moved to \<open>(x', y')\<close>, which cleared the
  callback. \<open>pinching d\<close>: two contacts are down with reference distance \<open>d\<close>.
\<close>

definition pressed :: "real \<Rightarrow> real \<Rightarrow> real \<Rightarrow> real \<Rightarrow> world" where
  "pressed x y t lastTap =
     \<lparr> touchState =
         \<lparr> startX = x, startY = y, startTime = t, currentX = x, currentY = y,
           isTouching = True, touchCount = 1, lastTapTime = lastTap, longPressTimer = Some 1 \<rparr>,
       gestureState =
         \<lparr> scale = 1, rotation = 0, initialDistance = 0, initialAngle = 0 \<rparr>,
       timers = [(1, t + 500)], lastTimerId = 1, emitted = [] \<rparr>"

definition dragged :: "real \<Rightarrow> real \<Rightarrow> real \<Rightarrow> real \<Rightarrow> real \<Rightarrow> world" where
  "dragged x y t x' y' =
     \<lparr> touchState =
         \<lparr> startX = x, startY = y, startTime = t, currentX = x', currentY = y',
           isTouching = True, touchCount = 1, lastTapTime = 0, longPressTimer = None \<rparr>,
       gestureState =
         \<lparr> scale = 1, rotation = 0, initialDistance = 0, initialAngle = 0 \<rparr>,
       timers = [], lastTimerId = 1, emitted = [] \<rparr>"

definition pinching :: "real \<Rightarrow> world" where
  "pinching d =
     \<lparr> touchState =
         \<lparr> startX = 0, startY = 0, startTime = 0, currentX = 0, currentY = 0,
           isTouching = True, touchCount = 2, lastTapTime = 0, longPressTimer = Some 1 \<rparr>,
       gestureState =
         \<lparr> scale = 1, rotation = 0, initialDistance = d, initialAngle = 0 \<rparr>,
       timers = [(1, 500)], lastTimerId = 1, emitted = [] \<rparr>"

section \<open>Auxiliary facts\<close>

lemmas service_defs = dispatchGestureEvent_def dispatchTouchEvent_def vibrate_def showTouchFeedback_def
  showLongPressFeedback_def setTimeout_def clearTimeout_def emit_def

lemma gestures_Nil: "gestures [] = []"
  by (simp add: gestures_def List.map_filter_def)

lemma gestures_Cons:
  "gestures (out # outs) =
     (case gestureOf out of None \<Rightarrow> gestures outs | Some g \<Rightarrow> g # gestures outs)"
  by (cases "gestureOf out") (simp_all add: gestures_def List.map_filter_def)

lemma gestures_append: "gestures (xs @ ys) = gestures xs @ gestures ys"
  by (simp add: gestures_def List.map_filter_def)

lemmas sent_defs = sent_def gestures_Nil gestures_Cons gestures_append Let_def

lemmas moved_defs = movedX_def movedY_def movedDistance_def

lemmas world_defs = pressed_def dragged_def pinching_def

lemmas scenario_defs = handleTouchStart_def handleTouchMove_def handleTouchEnd_def handleTouchCancel_def
  handleTap_def handleSwipe_def handleMultiTouchStart_def handleMultiTouchMove_def triggerLongPress_def
  clearLongPressTimer_def timerFires_def service_defs contactAt_def contactsAt_def released_def
  TouchConfig_def TouchHandler_def observe_def always_def sent_defs

lemma sqrt_10000: "sqrt 10000 = 100"
  using real_sqrt_abs [of 100] by simp

lemma sqrt_1600: "sqrt 1600 = 40"
  using real_sqrt_abs [of 40] by simp

lemma sqrt_22500: "sqrt 22500 = 150"
  using real_sqrt_abs [of 150] by simp

lemma sqrt_2500: "sqrt 2500 = 50"
  using real_sqrt_abs [of 50] by simp

lemma sqrt_25: "sqrt 25 = 5"
  using real_sqrt_abs [of 5] by simp

lemma sent_append: "emitted w' = emitted w @ outs \<Longrightarrow> sent w w' = outs"
  by (simp add: sent_def)

lemma map_of_cleared: "map_of (filter (\<lambda>p. fst p \<noteq> h) xs) h = None"
  by (simp add: map_of_eq_None_iff image_iff)

lemma timerFires_unarmed: "map_of (timers w) h = None \<Longrightarrow> timerFires cfg t h w = None"
  by (simp add: timerFires_def)

subsection \<open>What each function leaves alone\<close>

lemma triggerLongPress_fields:
  "timers (triggerLongPress cfg t w) = timers w"
  "touchState (triggerLongPress cfg t w) = touchState w"
  "gestureState (triggerLongPress cfg t w) = gestureState w"
  "lastTimerId (triggerLongPress cfg t w) = lastTimerId w"
  by (simp_all add: triggerLongPress_def service_defs Let_def)

lemma triggerLongPress_sent:
  "gestures (sent w (triggerLongPress cfg t w)) =
     [(''longpress'', PointData (currentX (touchState w)) (currentY (touchState w))
         (LONG_PRESS_DURATION cfg))]"
  by (simp add: triggerLongPress_def service_defs sent_defs)

lemma clearLongPressTimer_fields:
  "gestureState (clearLongPressTimer w) = gestureState w"
  "emitted (clearLongPressTimer w) = emitted w"
  "lastTimerId (clearLongPressTimer w) = lastTimerId w"
  "isTouching (touchState (clearLongPressTimer w)) = isTouching (touchState w)"
  "touchCount (touchState (clearLongPressTimer w)) = touchCount (touchState w)"
  "startX (touchState (clearLongPressTimer w)) = startX (touchState w)"
  "startY (touchState (clearLongPressTimer w)) = startY (touchState w)"
  "startTime (touchState (clearLongPressTimer w)) = startTime (touchState w)"
  "currentX (touchState (clearLongPressTimer w)) = currentX (touchState w)"
  "currentY (touchState (clearLongPressTimer w)) = currentY (touchState w)"
  "lastTapTime (touchState (clearLongPressTimer w)) = lastTapTime (touchState w)"
  by (simp_all add: clearLongPressTimer_def clearTimeout_def split: option.split)

lemma clearLongPressTimer_moved:
  "timers (clearLongPressTimer
     (touchState_update (\<lambda>ts. ts\<lparr>currentX := x, currentY := y\<rparr>) w)) =
   timers (clearLongPressTimer w)"
  "longPressTimer (touchState (clearLongPressTimer
     (touchState_update (\<lambda>ts. ts\<lparr>currentX := x, currentY := y\<rparr>) w))) =
   longPressTimer (touchState (clearLongPressTimer w))"
  by (simp_all add: clearLongPressTimer_def clearTimeout_def split: option.split)

lemma clearLongPressTimer_timers: "set (timers (clearLongPressTimer w)) \<subseteq> set (timers w)"
  by (simp add: clearLongPressTimer_def clearTimeout_def split: option.split)

lemma handleTap_fields:
  "timers (handleTap cfg ct st d w) = timers w"
  "lastTimerId (handleTap cfg ct st d w) = lastTimerId w"
  "gestureState (handleTap cfg ct st d w) = gestureState w"
  "longPressTimer (touchState (handleTap cfg ct st d w)) = longPressTimer (touchState w)"
  "isTouching (touchState (handleTap cfg ct st d w)) = isTouching (touchState w)"
  "touchCount (touchState (handleTap cfg ct st d w)) = touchCount (touchState w)"
  "startX (touchState (handleTap cfg ct st d w)) = startX (touchState w)"
  "startY (touchState (handleTap cfg ct st d w)) = startY (touchState w)"
  "startTime (touchState (handleTap cfg ct st d w)) = startTime (touchState w)"
  "currentX (touchState (handleTap cfg ct st d w)) = currentX (touchState w)"
  "currentY (touchState (handleTap cfg ct st d w)) = currentY (touchState w)"
  by (simp_all add: handleTap_def service_defs Let_def)

lemma handleSwipe_fields:
  "timers (handleSwipe cfg ct st dx dy d w) = timers w"
  "lastTimerId (handleSwipe cfg ct st dx dy d w) = lastTimerId w"
  "gestureState (handleSwipe cfg ct st dx dy d w) = gestureState w"
  "touchState (handleSwipe cfg ct st dx dy d w) = touchState w"
  by (simp_all add: handleSwipe_def service_defs Let_def)

lemma handleMultiTouchMove_fields:
  "timers (handleMultiTouchMove cfg clk t1 t2 w) = timers w"
  "lastTimerId (handleMultiTouchMove cfg clk t1 t2 w) = lastTimerId w"
  "touchState (handleMultiTouchMove cfg clk t1 t2 w) = touchState w"
  by (simp_all add: handleMultiTouchMove_def service_defs Let_def)

lemma dispatchTouchEvent_fields:
  "timers (dispatchTouchEvent ty e w) = timers w"
  "lastTimerId (dispatchTouchEvent ty e w) = lastTimerId w"
  "touchState (dispatchTouchEvent ty e w) = touchState w"
  "gestureState (dispatchTouchEvent ty e w) = gestureState w"
  by (simp_all add: dispatchTouchEvent_def emit_def split: option.split)

subsection \<open>Contact start\<close>

lemma handleTouchStart_Some:
  assumes "handleTouchStart cfg now event w = Some w'"
  obtains touch rest where "touches event = touch # rest"
    and "w' = the (handleTouchStart cfg now event w)"
  using assms by (cases "touches event") (simp_all add: handleTouchStart_def)

lemma handleTouchStart_total:
  "touches event \<noteq> [] \<Longrightarrow> \<exists>w'. handleTouchStart cfg now event w = Some w'"
  by (cases "touches event") (simp_all add: handleTouchStart_def Let_def split: prod.split)

lemma handleTouchStart_timer:
  assumes "handleTouchStart cfg now event w = Some w'"
  shows "timers w' = timers w @ [(Suc (lastTimerId w), now + max 0 (LONG_PRESS_DURATION cfg))]"
    and "lastTimerId w' = Suc (lastTimerId w)"
    and "longPressTimer (touchState w') = Some (Suc (lastTimerId w))"
    and "isTouching (touchState w')"
    and "lastTapTime (touchState w') = lastTapTime (touchState w)"
    and "startTime (touchState w') = now"
    and "movedDistance w' = 0"
proof -
  from assms obtain touch rest where t: "touches event = touch # rest"
    and w': "w' = the (handleTouchStart cfg now event w)"
    by (rule handleTouchStart_Some)
  show "timers w' = timers w @ [(Suc (lastTimerId w), now + max 0 (LONG_PRESS_DURATION cfg))]"
    and "lastTimerId w' = Suc (lastTimerId w)"
    and "longPressTimer (touchState w') = Some (Suc (lastTimerId w))"
    and "isTouching (touchState w')"
    and "lastTapTime (touchState w') = lastTapTime (touchState w)"
    and "startTime (touchState w') = now"
    and "movedDistance w' = 0"
    unfolding w' using t
    by (simp_all add: handleTouchStart_def handleMultiTouchStart_def service_defs Let_def moved_defs
        split: list.split option.split)
qed

lemma handleTouchStart_sent:
  assumes "handleTouchStart cfg now event w = Some w'"
  shows "\<exists>outs. emitted w' = emitted w @ outs \<and> gestures outs = []"
proof -
  from assms obtain touch rest where t: "touches event = touch # rest"
    and w': "w' = the (handleTouchStart cfg now event w)"
    by (rule handleTouchStart_Some)
  show ?thesis
    unfolding w' using t
    by (simp add: handleTouchStart_def handleMultiTouchStart_def service_defs sent_defs
        split: list.split option.split)
qed

lemma handleTouchStart_gestureState:
  assumes "handleTouchStart cfg now event w = Some w'" and "length (touches event) \<noteq> 2"
  shows "gestureState w' = gestureState w"
proof -
  from assms(1) obtain touch rest where t: "touches event = touch # rest"
    and w': "w' = the (handleTouchStart cfg now event w)"
    by (rule handleTouchStart_Some)
  show ?thesis
    unfolding w' using t assms(2)
    by (auto simp add: handleTouchStart_def service_defs Let_def split: list.split option.split)
qed

subsection \<open>Contact move\<close>

lemma handleTouchMove_Some:
  assumes "handleTouchMove cfg clk event w = Some w'" and "isTouching (touchState w)"
  obtains touch rest where "touches event = touch # rest"
    and "w' = the (handleTouchMove cfg clk event w)"
  using assms by (cases "touches event") (simp_all add: handleTouchMove_def)

lemma handleTouchMove_active:
  assumes "isTouching (touchState w)" and "touches event \<noteq> []"
  shows "\<exists>w'. handleTouchMove cfg clk event w = Some w' \<and>
           timers w' = timers (clearLongPressTimer w) \<and>
           lastTimerId w' = lastTimerId w \<and>
           longPressTimer (touchState w') = longPressTimer (touchState (clearLongPressTimer w)) \<and>
           isTouching (touchState w')"
  using assms
  by (cases "touches event")
     (simp_all add: handleTouchMove_def Let_def dispatchTouchEvent_fields handleMultiTouchMove_fields
        clearLongPressTimer_moved clearLongPressTimer_fields split: list.split)

lemma handleTouchMove_sent:
  assumes "handleTouchMove cfg clk event w = Some w'"
  shows "\<exists>outs. emitted w' = emitted w @ outs \<and>
           list_all (\<lambda>g. fst g = ''pinch'' \<or> fst g = ''rotate'') (gestures outs)"
proof (cases "isTouching (touchState w)")
  case False
  with assms show ?thesis by (simp add: handleTouchMove_def gestures_Nil)
next
  case True
  with assms obtain touch rest where t: "touches event = touch # rest"
    and w': "w' = the (handleTouchMove cfg clk event w)"
    by (rule handleTouchMove_Some)
  show ?thesis
    unfolding w' using t True
    by (simp add: handleTouchMove_def handleMultiTouchMove_def clearLongPressTimer_def service_defs
        sent_defs split: list.split option.split)
qed

lemma handleTouchMove_gestureState:
  assumes "handleTouchMove cfg clk event w = Some w'" and "length (touches event) \<noteq> 2"
  shows "gestureState w' = gestureState w"
proof (cases "isTouching (touchState w)")
  case False
  with assms show ?thesis by (simp add: handleTouchMove_def)
next
  case True
  with assms(1) obtain touch rest where t: "touches event = touch # rest"
    and w': "w' = the (handleTouchMove cfg clk event w)"
    by (rule handleTouchMove_Some)
  show ?thesis
    unfolding w' using t True assms(2)
    by (auto simp add: handleTouchMove_def Let_def clearLongPressTimer_fields dispatchTouchEvent_fields
        split: list.split)
qed

subsection \<open>Contact end and cancel\<close>

lemma handleTouchEnd_active:
  assumes "isTouching (touchState w)"
  shows "timers (handleTouchEnd cfg clk event w) = timers (clearLongPressTimer w)"
    and "lastTimerId (handleTouchEnd cfg clk event w) = lastTimerId w"
    and "longPressTimer (touchState (handleTouchEnd cfg clk event w)) =
           longPressTimer (touchState (clearLongPressTimer w))"
    and "isTouching (touchState (handleTouchEnd cfg clk event w)) = False"
    and "touchCount (touchState (handleTouchEnd cfg clk event w)) = 0"
    and "gestureState (handleTouchEnd cfg clk event w) = gestureState w"
    and "startX (touchState (handleTouchEnd cfg clk event w)) = startX (touchState w)"
    and "startY (touchState (handleTouchEnd cfg clk event w)) = startY (touchState w)"
    and "startTime (touchState (handleTouchEnd cfg clk event w)) = startTime (touchState w)"
    and "currentX (touchState (handleTouchEnd cfg clk event w)) = currentX (touchState w)"
    and "currentY (touchState (handleTouchEnd cfg clk event w)) = currentY (touchState w)"
  using assms
  by (simp_all add: handleTouchEnd_def Let_def dispatchTouchEvent_fields handleTap_fields
      handleSwipe_fields clearLongPressTimer_fields)

lemma handleTouchEnd_sent:
  "\<exists>outs. emitted (handleTouchEnd cfg clk event w) = emitted w @ outs \<and>
          list_all (\<lambda>g. fst g = ''tap'' \<or> fst g = ''doubletap'' \<or> fst g = ''swipe'')
            (gestures outs)"
  by (simp add: handleTouchEnd_def handleTap_def handleSwipe_def clearLongPressTimer_def service_defs
      sent_defs split: option.split)

lemma handleTouchEnd_tap:
  assumes "isTouching (touchState w)"
    and "movedDistance w < TAP_THRESHOLD cfg"
    and "clk 0 - startTime (touchState w) < 300"
  shows "gestures (sent w (handleTouchEnd cfg clk event w)) =
          [(if clk 1 - lastTapTime (touchState w) < 300 then ''doubletap'' else ''tap'',
            PointData (currentX (touchState w)) (currentY (touchState w))
              (clk 0 - startTime (touchState w)))]"
    and "lastTapTime (touchState (handleTouchEnd cfg clk event w)) =
          (if clk 1 - lastTapTime (touchState w) < 300 then 0 else clk 1)"
  using assms
  by (simp_all add: handleTouchEnd_def handleTap_def clearLongPressTimer_def service_defs sent_defs
      moved_defs split: option.split)

lemma handleTouchEnd_swipe:
  assumes "isTouching (touchState w)"
    and "TAP_THRESHOLD cfg \<le> SWIPE_THRESHOLD cfg"
    and "SWIPE_THRESHOLD cfg \<le> movedDistance w"
    and "clk 0 - startTime (touchState w) < 500"
  shows "gestures (sent w (handleTouchEnd cfg clk event w)) =
          [(''swipe'', SwipeData
              (if \<bar>movedX w\<bar> > \<bar>movedY w\<bar> then (if movedX w > 0 then ''right'' else ''left'')
               else (if movedY w > 0 then ''down'' else ''up''))
              (movedX w) (movedY w) (movedDistance w) (atan2 (movedY w) (movedX w) * (180 / pi))
              (js_div (movedDistance w) (clk 1 - startTime (touchState w)))
              (clk 1 - startTime (touchState w)))]"
  using assms
  by (simp add: handleTouchEnd_def handleSwipe_def clearLongPressTimer_def service_defs sent_defs
      moved_defs split: option.split)

lemma handleTouchCancel_fields:
  shows "timers (handleTouchCancel event w) = timers (clearLongPressTimer w)"
    and "lastTimerId (handleTouchCancel event w) = lastTimerId w"
    and "longPressTimer (touchState (handleTouchCancel event w)) =
           longPressTimer (touchState (clearLongPressTimer w))"
    and "isTouching (touchState (handleTouchCancel event w)) = False"
    and "touchCount (touchState (handleTouchCancel event w)) = 0"
    and "gestureState (handleTouchCancel event w) = gestureState w"
    and "startX (touchState (handleTouchCancel event w)) = startX (touchState w)"
    and "startY (touchState (handleTouchCancel event w)) = startY (touchState w)"
    and "startTime (touchState (handleTouchCancel event w)) = startTime (touchState w)"
    and "currentX (touchState (handleTouchCancel event w)) = currentX (touchState w)"
    and "currentY (touchState (handleTouchCancel event w)) = currentY (touchState w)"
    and "lastTapTime (touchState (handleTouchCancel event w)) = lastTapTime (touchState w)"
  by (simp_all add: handleTouchCancel_def Let_def dispatchTouchEvent_fields clearLongPressTimer_fields)

lemma handleTouchCancel_sent: "gestures (sent w (handleTouchCancel event w)) = []"
  by (simp add: handleTouchCancel_def clearLongPressTimer_def service_defs sent_defs
      split: option.split)

subsection \<open>Timer handles\<close>

text \<open>
  \<open>handlesIssued\<close> holds of the initial handler and is kept by every task of the event
  loop, so it holds of every world that a run from \<open>TouchHandler\<close> reaches.
\<close>

lemma handlesIssued_init: "handlesIssued TouchHandler"
  by (simp add: handlesIssued_def TouchHandler_def)

lemma handlesIssued_cong:
  "timers w' = timers w \<Longrightarrow> lastTimerId w' = lastTimerId w \<Longrightarrow>
   longPressTimer (touchState w') = longPressTimer (touchState w) \<Longrightarrow>
   handlesIssued w' = handlesIssued w"
  by (simp add: handlesIssued_def)

lemma handlesIssued_fresh:
  assumes "handlesIssued w"
  shows "map_of (timers w) (Suc (lastTimerId w)) = None"
    and "filter (\<lambda>p. fst p \<noteq> Suc (lastTimerId w)) (timers w) = timers w"
proof -
  have le: "fst p \<le> lastTimerId w" if "p \<in> set (timers w)" for p
    using assms that by (simp add: handlesIssued_def list_all_iff)
  show "map_of (timers w) (Suc (lastTimerId w)) = None"
    using le by (fastforce simp add: map_of_eq_None_iff)
  show "filter (\<lambda>p. fst p \<noteq> Suc (lastTimerId w)) (timers w) = timers w"
    using le by (intro filter_True) fastforce
qed

lemma clearLongPressTimer_disarms:
  assumes "handlesIssued w"
  shows "longPressTimer (touchState (clearLongPressTimer w)) = None"
    and "longPressTimer (touchState w) = Some h \<Longrightarrow>
           map_of (timers (clearLongPressTimer w)) h = None"
proof -
  show "longPressTimer (touchState (clearLongPressTimer w)) = None"
    using assms by (cases "longPressTimer (touchState w)")
      (simp_all add: handlesIssued_def clearLongPressTimer_def)
  show "map_of (timers (clearLongPressTimer w)) h = None"
    if "longPressTimer (touchState w) = Some h"
    using assms that
    by (simp add: handlesIssued_def clearLongPressTimer_def clearTimeout_def map_of_cleared)
qed

lemma handlesIssued_clear:
  assumes "handlesIssued w"
  shows "handlesIssued (clearLongPressTimer w)"
proof -
  have "list_all (\<lambda>p. issued (lastTimerId w) (Some (fst p))) (timers (clearLongPressTimer w))"
    using assms clearLongPressTimer_timers [of w]
    by (auto simp add: handlesIssued_def list_all_iff)
  then show ?thesis
    using clearLongPressTimer_disarms(1) [OF assms]
    by (simp add: handlesIssued_def clearLongPressTimer_fields)
qed

lemma clear_after_arm:
  assumes "handlesIssued w" and "timers w1 = timers w @ [(Suc (lastTimerId w), d)]"
    and "longPressTimer (touchState w1) = Some (Suc (lastTimerId w))"
  shows "timers (clearLongPressTimer w1) = timers w"
  using assms(2,3) handlesIssued_fresh(2) [OF assms(1)]
  by (simp add: clearLongPressTimer_def clearTimeout_def)

lemma armed_deadline:
  assumes "handlesIssued w"
  shows "map_of (timers w @ [(Suc (lastTimerId w), d)]) (Suc (lastTimerId w)) = Some d"
  using handlesIssued_fresh(1) [OF assms] by (simp add: map_add_def)

lemma handlesIssued_start:
  assumes "handlesIssued w" and "handleTouchStart cfg now event w = Some w'"
  shows "handlesIssued w'"
proof -
  have "issued (Suc (lastTimerId w)) (Some (fst p))" if "p \<in> set (timers w)" for p
    using assms(1) that by (fastforce simp add: handlesIssued_def list_all_iff)
  then show ?thesis
    using handleTouchStart_timer(1-3) [OF assms(2)]
    by (simp add: handlesIssued_def list_all_iff)
qed

lemma handlesIssued_move:
  assumes "handlesIssued w" and "handleTouchMove cfg clk event w = Some w'"
  shows "handlesIssued w'"
proof (cases "isTouching (touchState w)")
  case False
  with assms show ?thesis by (simp add: handleTouchMove_def)
next
  case True
  with assms(2) have "touches event \<noteq> []"
    by (auto simp add: handleTouchMove_def)
  with True obtain w'' where "handleTouchMove cfg clk event w = Some w''"
    and "timers w'' = timers (clearLongPressTimer w)"
    and "lastTimerId w'' = lastTimerId w"
    and "longPressTimer (touchState w'') = longPressTimer (touchState (clearLongPressTimer w))"
    using handleTouchMove_active [of w event cfg clk] by blast
  with assms(2) have "handlesIssued w' = handlesIssued (clearLongPressTimer w)"
    by (simp add: handlesIssued_def clearLongPressTimer_fields)
  then show ?thesis
    using handlesIssued_clear [OF assms(1)] by simp
qed

lemma handlesIssued_end:
  assumes "handlesIssued w"
  shows "handlesIssued (handleTouchEnd cfg clk event w)"
proof (cases "isTouching (touchState w)")
  case False
  with assms show ?thesis by (simp add: handleTouchEnd_def)
next
  case True
  have "handlesIssued (handleTouchEnd cfg clk event w) = handlesIssued (clearLongPressTimer w)"
    by (simp add: handlesIssued_def handleTouchEnd_active [OF True] clearLongPressTimer_fields)
  then show ?thesis
    using handlesIssued_clear [OF assms] by simp
qed

lemma handlesIssued_cancel:
  assumes "handlesIssued w"
  shows "handlesIssued (handleTouchCancel event w)"
proof -
  have "handlesIssued (handleTouchCancel event w) = handlesIssued (clearLongPressTimer w)"
    by (simp add: handlesIssued_def handleTouchCancel_fields clearLongPressTimer_fields)
  then show ?thesis
    using handlesIssued_clear [OF assms] by simp
qed

lemma handlesIssued_timerFires:
  assumes "handlesIssued w" and "timerFires cfg now h w = Some w'"
  shows "handlesIssued w'"
proof -
  from assms(2) have w': "w' = triggerLongPress cfg now (clearTimeout h w)"
    by (simp add: timerFires_def split: option.split_asm if_split_asm)
  show ?thesis
    using assms(1) unfolding w'
    by (simp add: handlesIssued_def triggerLongPress_fields clearTimeout_def list_all_iff)
qed

lemma handlesIssued_step:
  assumes "handlesIssued w" and "step cfg t w = Some w'"
  shows "handlesIssued w'"
proof (cases t)
  case (Pair now task)
  with assms show ?thesis
    by (cases task)
       (auto intro: handlesIssued_start handlesIssued_move handlesIssued_end
          handlesIssued_cancel handlesIssued_timerFires)
qed

lemma handlesIssued_run:
  "handlesIssued w \<Longrightarrow> run cfg ts w = Some w' \<Longrightarrow> handlesIssued w'"
proof (induction ts arbitrary: w)
  case Nil
  then show ?case by simp
next
  case (Cons t ts)
  then obtain w1 where "step cfg t w = Some w1" and "run cfg ts w1 = Some w'"
    by (auto split: option.split_asm)
  with Cons.IH Cons.prems(1) show ?case
    by (blast intro: handlesIssued_step)
qed

section \<open>Idle handler\<close>

text \<open>
  Claim C10. While no session is active (\<^verbatim>\<open>isTouching\<close> is false), \<^verbatim>\<open>handleTouchMove\<close> and
  \<^verbatim>\<open>handleTouchEnd\<close> return at once: the whole world, that is the touch state, the gesture
  state, the pending callbacks and the list of what has been sent, is the same afterwards.
  \<^verbatim>\<open>handleTouchMove\<close> does not even look at the contact list.
\<close>

theorem idle_move_and_end_do_nothing:
  assumes "\<not> isTouching (touchState w)"
  shows "handleTouchMove cfg clk event w = Some w \<and> handleTouchEnd cfg clk' event' w = w"
  using assms by (simp add: handleTouchMove_def handleTouchEnd_def)

text \<open>The idle handler of the source, a move with one contact and an end.\<close>

theorem idle_move_and_end_do_nothing_witness:
  "\<not> isTouching (touchState TouchHandler) \<and>
   handleTouchMove TouchConfig (always 100) (contactAt 5 5) TouchHandler = Some TouchHandler \<and>
   handleTouchEnd TouchConfig (always 100) released TouchHandler = TouchHandler"
  using idle_move_and_end_do_nothing
      [of TouchHandler TouchConfig "always 100" "contactAt 5 5" "always 100" released]
  by (simp add: TouchHandler_def)

section \<open>Tap and double tap\<close>

text \<open>
  \<^verbatim>\<open>Date.now()\<close> counts the milliseconds since 1970, so the times of a scenario are offsets
  from the clock \<open>t0\<close> of its first contact, and \<open>t0\<close> is far above 200. \<^verbatim>\<open>lastTapTime\<close> is 0
  until the first tap.
\<close>

lemma tap_scenario_offset:
  assumes "200 \<le> t0"
  shows "observe TouchConfig
     [(t0, TouchStart (contactAt 0 0)), (t0 + 100, TouchEnd released),
      (t0 + 150, TouchStart (contactAt 0 0)), (t0 + 200, TouchEnd released)] TouchHandler =
   Some [(''tap'', PointData 0 0 100), (''doubletap'', PointData 0 0 50)]"
  using assms by (simp add: scenario_defs)

lemma three_taps_offset:
  assumes "200 \<le> t0"
  shows "observe TouchConfig
     [(t0, TouchStart (contactAt 0 0)), (t0 + 100, TouchEnd released),
      (t0 + 150, TouchStart (contactAt 0 0)), (t0 + 200, TouchEnd released),
      (t0 + 250, TouchStart (contactAt 0 0)), (t0 + 300, TouchEnd released)] TouchHandler =
   Some [(''tap'', PointData 0 0 100), (''doubletap'', PointData 0 0 50),
         (''tap'', PointData 0 0 50)]"
  using assms by (simp add: scenario_defs)

text \<open>
  Claim C1. When a session is active, the contact has moved less than \<^verbatim>\<open>TAP_THRESHOLD\<close> (10
  in \<open>TouchConfig\<close>) and has lasted less than 300 ms, \<^verbatim>\<open>handleTouchEnd\<close> sends exactly one
  gesture: \<^verbatim>\<open>doubletap\<close> if the clock read in \<^verbatim>\<open>handleTap\<close> is less than 300 after
  \<^verbatim>\<open>lastTapTime\<close>, else \<^verbatim>\<open>tap\<close>, never both; it carries the current position and the
  duration. On the initial handler, with the first contact at clock \<open>t0\<close>: a start at
  (0,0) and an end 100 ms later give \<^verbatim>\<open>tap\<close> at (0,0) with duration 100, and a second start
  150 ms and end 200 ms after \<open>t0\<close> give \<^verbatim>\<open>doubletap\<close>.
\<close>

theorem tap_or_doubletap:
  assumes "isTouching (touchState w)"
    and "movedDistance w < TAP_THRESHOLD cfg"
    and "clk 0 - startTime (touchState w) < 300"
  shows "gestures (sent w (handleTouchEnd cfg clk event w)) =
           [(if clk 1 - lastTapTime (touchState w) < 300 then ''doubletap'' else ''tap'',
             PointData (currentX (touchState w)) (currentY (touchState w))
               (clk 0 - startTime (touchState w)))] \<and>
         TAP_THRESHOLD TouchConfig = 10 \<and>
         (200 \<le> t0 \<longrightarrow>
            observe TouchConfig
              [(t0, TouchStart (contactAt 0 0)), (t0 + 100, TouchEnd released),
               (t0 + 150, TouchStart (contactAt 0 0)), (t0 + 200, TouchEnd released)]
              TouchHandler =
            Some [(''tap'', PointData 0 0 100), (''doubletap'', PointData 0 0 50)])"
  using assms handleTouchEnd_tap(1) [of w cfg clk event] tap_scenario_offset [of t0]
  by (simp add: TouchConfig_def)

text \<open>
  A contact down at the origin since 1000, lifted at 1100 with no earlier tap; and the
  scenario from the clock 1000.
\<close>

theorem tap_or_doubletap_witness:
  "isTouching (touchState (pressed 0 0 1000 0)) \<and>
   movedDistance (pressed 0 0 1000 0) < TAP_THRESHOLD TouchConfig \<and>
   always 1100 0 - startTime (touchState (pressed 0 0 1000 0)) < 300 \<and>
   gestures (sent (pressed 0 0 1000 0)
     (handleTouchEnd TouchConfig (always 1100) released (pressed 0 0 1000 0))) =
     [(''tap'', PointData 0 0 100)] \<and>
   (200::real) \<le> 1000 \<and>
   observe TouchConfig
     [(1000, TouchStart (contactAt 0 0)), (1000 + 100, TouchEnd released),
      (1000 + 150, TouchStart (contactAt 0 0)), (1000 + 200, TouchEnd released)] TouchHandler =
   Some [(''tap'', PointData 0 0 100), (''doubletap'', PointData 0 0 50)]"
  using tap_or_doubletap [of "pressed 0 0 1000 0" TouchConfig "always 1100" released 1000]
  by (simp add: world_defs TouchConfig_def moved_defs always_def)

text \<open>
  Claim C8. When \<^verbatim>\<open>handleTouchEnd\<close> classifies a \<^verbatim>\<open>doubletap\<close> it sets \<^verbatim>\<open>lastTapTime\<close> to 0, so
  that the tap that follows at once (a new contact start, then an end within 300 ms and
  without movement) is a \<^verbatim>\<open>tap\<close> and not another \<^verbatim>\<open>doubletap\<close>: its clock, milliseconds
  since 1970, reads at least 300 and is compared with 0. When \<^verbatim>\<open>handleTouchEnd\<close> classifies
  a \<^verbatim>\<open>tap\<close> it sets \<^verbatim>\<open>lastTapTime\<close> to the clock read in \<^verbatim>\<open>handleTap\<close>. Three taps in a row on
  the initial handler, the first contact at clock \<open>t0\<close>: \<^verbatim>\<open>tap\<close>, \<^verbatim>\<open>doubletap\<close>, \<^verbatim>\<open>tap\<close>.
\<close>

theorem lastTapTime_update:
  assumes "isTouching (touchState w)"
    and "movedDistance w < TAP_THRESHOLD cfg"
    and "clk 0 - startTime (touchState w) < 300"
  shows "(clk 1 - lastTapTime (touchState w) < 300 \<longrightarrow>
            map fst (gestures (sent w (handleTouchEnd cfg clk event w))) = [''doubletap''] \<and>
            lastTapTime (touchState (handleTouchEnd cfg clk event w)) = 0 \<and>
            (\<forall>w2. handleTouchStart cfg now2 event2 (handleTouchEnd cfg clk event w) = Some w2 \<and>
                  0 < TAP_THRESHOLD cfg \<and> clk2 0 - now2 < 300 \<and> 300 \<le> clk2 1 \<longrightarrow>
                  map fst (gestures (sent w2 (handleTouchEnd cfg clk2 event3 w2))) = [''tap''])) \<and>
         (\<not> clk 1 - lastTapTime (touchState w) < 300 \<longrightarrow>
            map fst (gestures (sent w (handleTouchEnd cfg clk event w))) = [''tap''] \<and>
            lastTapTime (touchState (handleTouchEnd cfg clk event w)) = clk 1) \<and>
         (200 \<le> t0 \<longrightarrow>
            observe TouchConfig
              [(t0, TouchStart (contactAt 0 0)), (t0 + 100, TouchEnd released),
               (t0 + 150, TouchStart (contactAt 0 0)), (t0 + 200, TouchEnd released),
               (t0 + 250, TouchStart (contactAt 0 0)), (t0 + 300, TouchEnd released)]
              TouchHandler =
            Some [(''tap'', PointData 0 0 100), (''doubletap'', PointData 0 0 50),
                  (''tap'', PointData 0 0 50)])"
proof -
  let ?w' = "handleTouchEnd cfg clk event w"
  have third: "map fst (gestures (sent w2 (handleTouchEnd cfg clk2 event3 w2))) = [''tap'']"
    if dt: "clk 1 - lastTapTime (touchState w) < 300"
      and st: "handleTouchStart cfg now2 event2 ?w' = Some w2"
      and th: "0 < TAP_THRESHOLD cfg" and quick: "clk2 0 - now2 < 300"
      and epoch: "300 \<le> clk2 1" for w2
  proof -
    have "lastTapTime (touchState ?w') = 0"
      using assms dt handleTouchEnd_tap(2) [of w cfg clk event] by simp
    then have l: "lastTapTime (touchState w2) = 0"
      using handleTouchStart_timer(5) [OF st] by simp
    have "isTouching (touchState w2)" and "movedDistance w2 < TAP_THRESHOLD cfg"
      and "clk2 0 - startTime (touchState w2) < 300"
      using handleTouchStart_timer(4,6,7) [OF st] th quick by simp_all
    then show ?thesis
      using handleTouchEnd_tap(1) [of w2 cfg clk2 event3] l epoch by simp
  qed
  show ?thesis
    using assms handleTouchEnd_tap [of w cfg clk event] third three_taps_offset [of t0]
    by simp
qed

text \<open>
  A contact down since 1150 with a tap recorded at 1100, lifted at 1200: a \<^verbatim>\<open>doubletap\<close>
  that resets \<^verbatim>\<open>lastTapTime\<close>; and three taps in a row from the clock 1000.
\<close>

theorem lastTapTime_update_witness:
  "isTouching (touchState (pressed 0 0 1150 1100)) \<and>
   movedDistance (pressed 0 0 1150 1100) < TAP_THRESHOLD TouchConfig \<and>
   always 1200 0 - startTime (touchState (pressed 0 0 1150 1100)) < 300 \<and>
   always 1200 1 - lastTapTime (touchState (pressed 0 0 1150 1100)) < 300 \<and>
   map fst (gestures (sent (pressed 0 0 1150 1100)
     (handleTouchEnd TouchConfig (always 1200) released (pressed 0 0 1150 1100)))) =
     [''doubletap''] \<and>
   lastTapTime (touchState
     (handleTouchEnd TouchConfig (always 1200) released (pressed 0 0 1150 1100))) = 0 \<and>
   (200::real) \<le> 1000 \<and>
   observe TouchConfig
     [(1000, TouchStart (contactAt 0 0)), (1000 + 100, TouchEnd released),
      (1000 + 150, TouchStart (contactAt 0 0)), (1000 + 200, TouchEnd released),
      (1000 + 250, TouchStart (contactAt 0 0)), (1000 + 300, TouchEnd released)] TouchHandler =
   Some [(''tap'', PointData 0 0 100), (''doubletap'', PointData 0 0 50),
         (''tap'', PointData 0 0 50)]"
proof -
  have h: "isTouching (touchState (pressed 0 0 1150 1100))"
    "movedDistance (pressed 0 0 1150 1100) < TAP_THRESHOLD TouchConfig"
    "always 1200 0 - startTime (touchState (pressed 0 0 1150 1100)) < 300"
    "always 1200 1 - lastTapTime (touchState (pressed 0 0 1150 1100)) < 300"
    by (simp_all add: world_defs TouchConfig_def moved_defs always_def)
  note u = lastTapTime_update
      [of "pressed 0 0 1150 1100" TouchConfig "always 1200" released _ _ _ _ 1000, OF h(1-3)]
  from u [THEN conjunct1] h(4)
  have d: "map fst (gestures (sent (pressed 0 0 1150 1100)
     (handleTouchEnd TouchConfig (always 1200) released (pressed 0 0 1150 1100)))) =
     [''doubletap''] \<and>
   lastTapTime (touchState
     (handleTouchEnd TouchConfig (always 1200) released (pressed 0 0 1150 1100))) = 0"
    by blast
  from u [THEN conjunct2, THEN conjunct2]
  have s: "observe TouchConfig
     [(1000, TouchStart (contactAt 0 0)), (1000 + 100, TouchEnd released),
      (1000 + 150, TouchStart (contactAt 0 0)), (1000 + 200, TouchEnd released),
      (1000 + 250, TouchStart (contactAt 0 0)), (1000 + 300, TouchEnd released)] TouchHandler =
   Some [(''tap'', PointData 0 0 100), (''doubletap'', PointData 0 0 50),
         (''tap'', PointData 0 0 50)]"
    by simp
  from h d s show ?thesis
    by simp
qed

section \<open>Swipe\<close>

lemma swipe_scenario:
  "observe TouchConfig
     [(0, TouchStart (contactAt 0 0)), (50, TouchMove (contactAt 40 0)), (200, TouchEnd released)]
     TouchHandler =
   Some [(''swipe'', SwipeData ''right'' 40 0 40 0 (Finite (1 / 5)) 200)]"
  by (simp add: scenario_defs sqrt_1600 atan2_def js_div_def)

text \<open>
  Claim C2. When a session is active, the contact has moved at least \<^verbatim>\<open>SWIPE_THRESHOLD\<close> (30
  in \<open>TouchConfig\<close>, where the tap threshold 10 is below it) and has lasted less than
  500 ms, \<^verbatim>\<open>handleTouchEnd\<close> sends exactly one gesture, a \<^verbatim>\<open>swipe\<close>. Its direction is
  \<^verbatim>\<open>right\<close> or \<^verbatim>\<open>left\<close> by the sign of \<^verbatim>\<open>deltaX\<close> when \<^verbatim>\<open>|deltaX|\<close> is the greater, \<^verbatim>\<open>down\<close> or \<^verbatim>\<open>up\<close>
  by the sign of \<^verbatim>\<open>deltaY\<close> when \<^verbatim>\<open>|deltaY|\<close> is the greater; its velocity is the distance
  divided by the duration it carries (the JavaScript quotient: a number whenever the
  duration is not 0). Start at (0,0) at 0, move to (40,0) at 50, end at 200: \<^verbatim>\<open>swipe\<close> to
  the right, distance 40, duration 200, velocity 0.2.
\<close>

theorem swipe_direction_and_velocity:
  assumes "isTouching (touchState w)"
    and "TAP_THRESHOLD cfg \<le> SWIPE_THRESHOLD cfg"
    and "SWIPE_THRESHOLD cfg \<le> movedDistance w"
    and "clk 0 - startTime (touchState w) < 500"
  shows "(\<exists>direction angle velocity duration.
           gestures (sent w (handleTouchEnd cfg clk event w)) =
             [(''swipe'', SwipeData direction (movedX w) (movedY w) (movedDistance w)
                 angle velocity duration)] \<and>
           (\<bar>movedY w\<bar> < \<bar>movedX w\<bar> \<and> 0 < movedX w \<longrightarrow> direction = ''right'') \<and>
           (\<bar>movedY w\<bar> < \<bar>movedX w\<bar> \<and> movedX w < 0 \<longrightarrow> direction = ''left'') \<and>
           (\<bar>movedX w\<bar> < \<bar>movedY w\<bar> \<and> 0 < movedY w \<longrightarrow> direction = ''down'') \<and>
           (\<bar>movedX w\<bar> < \<bar>movedY w\<bar> \<and> movedY w < 0 \<longrightarrow> direction = ''up'') \<and>
           duration = clk 1 - startTime (touchState w) \<and>
           velocity = js_div (movedDistance w) duration \<and>
           (duration \<noteq> 0 \<longrightarrow> velocity = Finite (movedDistance w / duration))) \<and>
         SWIPE_THRESHOLD TouchConfig = 30 \<and> TAP_THRESHOLD TouchConfig = 10 \<and>
         observe TouchConfig
           [(0, TouchStart (contactAt 0 0)), (50, TouchMove (contactAt 40 0)),
            (200, TouchEnd released)] TouchHandler =
         Some [(''swipe'', SwipeData ''right'' 40 0 40 0 (Finite (1 / 5)) 200)]"
proof (intro conjI)
  show "\<exists>direction angle velocity duration.
           gestures (sent w (handleTouchEnd cfg clk event w)) =
             [(''swipe'', SwipeData direction (movedX w) (movedY w) (movedDistance w)
                 angle velocity duration)] \<and>
           (\<bar>movedY w\<bar> < \<bar>movedX w\<bar> \<and> 0 < movedX w \<longrightarrow> direction = ''right'') \<and>
           (\<bar>movedY w\<bar> < \<bar>movedX w\<bar> \<and> movedX w < 0 \<longrightarrow> direction = ''left'') \<and>
           (\<bar>movedX w\<bar> < \<bar>movedY w\<bar> \<and> 0 < movedY w \<longrightarrow> direction = ''down'') \<and>
           (\<bar>movedX w\<bar> < \<bar>movedY w\<bar> \<and> movedY w < 0 \<longrightarrow> direction = ''up'') \<and>
           duration = clk 1 - startTime (touchState w) \<and>
           velocity = js_div (movedDistance w) duration \<and>
           (duration \<noteq> 0 \<longrightarrow> velocity = Finite (movedDistance w / duration))"
  proof (intro exI conjI)
    show "gestures (sent w (handleTouchEnd cfg clk event w)) =
          [(''swipe'', SwipeData
              (if \<bar>movedX w\<bar> > \<bar>movedY w\<bar> then (if movedX w > 0 then ''right'' else ''left'')
               else (if movedY w > 0 then ''down'' else ''up''))
              (movedX w) (movedY w) (movedDistance w) (atan2 (movedY w) (movedX w) * (180 / pi))
              (js_div (movedDistance w) (clk 1 - startTime (touchState w)))
              (clk 1 - startTime (touchState w)))]"
      using assms by (rule handleTouchEnd_swipe)
  qed (auto simp add: js_div_def)
  show "SWIPE_THRESHOLD TouchConfig = 30" and "TAP_THRESHOLD TouchConfig = 10"
    by (simp_all add: TouchConfig_def)
  show "observe TouchConfig
           [(0, TouchStart (contactAt 0 0)), (50, TouchMove (contactAt 40 0)),
            (200, TouchEnd released)] TouchHandler =
         Some [(''swipe'', SwipeData ''right'' 40 0 40 0 (Finite (1 / 5)) 200)]"
    by (rule swipe_scenario)
qed

text \<open>A contact that went down at the origin at 0 and is lifted at (0,50) at 200.\<close>

theorem swipe_direction_and_velocity_witness:
  "isTouching (touchState (dragged 0 0 0 0 50)) \<and>
   TAP_THRESHOLD TouchConfig \<le> SWIPE_THRESHOLD TouchConfig \<and>
   SWIPE_THRESHOLD TouchConfig \<le> movedDistance (dragged 0 0 0 0 50) \<and>
   always 200 0 - startTime (touchState (dragged 0 0 0 0 50)) < 500 \<and>
   map fst (gestures (sent (dragged 0 0 0 0 50)
       (handleTouchEnd TouchConfig (always 200) released (dragged 0 0 0 0 50)))) = [''swipe''] \<and>
   movedX (dragged 0 0 0 0 50) = 0 \<and> movedY (dragged 0 0 0 0 50) = 50"
  using swipe_direction_and_velocity [of "dragged 0 0 0 0 50" TouchConfig "always 200" released]
  by (auto simp add: world_defs TouchConfig_def moved_defs sqrt_2500 always_def)

section \<open>Pinch\<close>

lemma pinch_scenario:
  "observe TouchConfig
     [(0, TouchStart (contactsAt 0 0 100 0)), (50, TouchMove (contactsAt 0 0 150 0))] TouchHandler =
   Some [(''pinch'', PinchData (3 / 2) 75 0), (''rotate'', RotateData 0 75 0)]"
  by (simp add: scenario_defs sqrt_10000 sqrt_22500 atan2_def)

lemma handleMultiTouchMove_pinch:
  "scale (gestureState (handleMultiTouchMove cfg clk touch1 touch2 w)) =
     (if 0 < initialDistance (gestureState w)
      then sqrt ((clientX touch2 - clientX touch1) * (clientX touch2 - clientX touch1) +
                 (clientY touch2 - clientY touch1) * (clientY touch2 - clientY touch1)) /
           initialDistance (gestureState w)
      else scale (gestureState w))"
  "gestures (sent w (handleMultiTouchMove cfg clk touch1 touch2 w)) =
     (''pinch'', PinchData (scale (gestureState (handleMultiTouchMove cfg clk touch1 touch2 w)))
        ((clientX touch1 + clientX touch2) / 2) ((clientY touch1 + clientY touch2) / 2)) #
     (if ENABLE_ROTATE cfg
      then [(''rotate'',
             RotateData (rotation (gestureState (handleMultiTouchMove cfg clk touch1 touch2 w)))
               ((clientX touch1 + clientX touch2) / 2) ((clientY touch1 + clientY touch2) / 2))]
      else [])"
  by (simp_all add: handleMultiTouchMove_def dispatchGestureEvent_def emit_def sent_defs)

lemma handleTouchMove_two:
  assumes "isTouching (touchState w)" and "ENABLE_PINCH_ZOOM cfg"
    and "touches event = [touch1, touch2]"
  shows "\<exists>w1. handleTouchMove cfg clk event w =
                 Some (dispatchTouchEvent ''touchmove'' event
                         (handleMultiTouchMove cfg clk touch1 touch2 w1)) \<and>
              gestureState w1 = gestureState w \<and> emitted w1 = emitted w"
proof (intro exI conjI)
  let ?w1 = "clearLongPressTimer
    (touchState_update (\<lambda>ts. ts\<lparr>currentX := clientX touch1, currentY := clientY touch1\<rparr>) w)"
  show "handleTouchMove cfg clk event w =
          Some (dispatchTouchEvent ''touchmove'' event
                  (handleMultiTouchMove cfg clk touch1 touch2 ?w1))"
    using assms by (simp add: handleTouchMove_def Let_def)
  show "gestureState ?w1 = gestureState w" and "emitted ?w1 = emitted w"
    by (simp_all add: clearLongPressTimer_fields)
qed

text \<open>
  Claim C6. \<^verbatim>\<open>handleMultiTouchMove\<close> sets the scale to the current distance of the two
  contacts divided by \<^verbatim>\<open>initialDistance\<close> when that is positive, and leaves the scale as it
  was when \<^verbatim>\<open>initialDistance\<close> is 0; it sends exactly one \<^verbatim>\<open>pinch\<close>, with that scale and the
  midpoint of the two contacts, followed by a \<^verbatim>\<open>rotate\<close> when rotation is enabled.
  \<^verbatim>\<open>handleTouchMove\<close> with exactly two contacts, a session active and pinch enabled (as in
  \<open>TouchConfig\<close>) sets the same scale and sends the same gestures. Two contacts 100 apart
  that move to 150 apart give a \<^verbatim>\<open>pinch\<close> of scale 3/2.
\<close>

theorem pinch_scale_and_center:
  "(let w' = handleMultiTouchMove cfg clk touch1 touch2 w;
        currentDistance =
          sqrt ((clientX touch2 - clientX touch1) * (clientX touch2 - clientX touch1) +
                (clientY touch2 - clientY touch1) * (clientY touch2 - clientY touch1))
    in (0 < initialDistance (gestureState w) \<longrightarrow>
          scale (gestureState w') = currentDistance / initialDistance (gestureState w)) \<and>
       (initialDistance (gestureState w) = 0 \<longrightarrow> scale (gestureState w') = scale (gestureState w)) \<and>
       gestures (sent w w') =
         (''pinch'', PinchData (scale (gestureState w'))
            ((clientX touch1 + clientX touch2) / 2) ((clientY touch1 + clientY touch2) / 2)) #
         (if ENABLE_ROTATE cfg
          then [(''rotate'', RotateData (rotation (gestureState w'))
                   ((clientX touch1 + clientX touch2) / 2) ((clientY touch1 + clientY touch2) / 2))]
          else [])) \<and>
   (isTouching (touchState w) \<and> ENABLE_PINCH_ZOOM cfg \<and> touches event = [touch1, touch2] \<longrightarrow>
      (\<exists>w'. handleTouchMove cfg clk event w = Some w' \<and>
         scale (gestureState w') =
           scale (gestureState (handleMultiTouchMove cfg clk touch1 touch2 w)) \<and>
         gestures (sent w w') = gestures (sent w (handleMultiTouchMove cfg clk touch1 touch2 w)))) \<and>
   ENABLE_PINCH_ZOOM TouchConfig \<and>
   observe TouchConfig
     [(0, TouchStart (contactsAt 0 0 100 0)), (50, TouchMove (contactsAt 0 0 150 0))] TouchHandler =
   Some [(''pinch'', PinchData (3 / 2) 75 0), (''rotate'', RotateData 0 75 0)]"
proof (intro conjI)
  show "let w' = handleMultiTouchMove cfg clk touch1 touch2 w;
        currentDistance =
          sqrt ((clientX touch2 - clientX touch1) * (clientX touch2 - clientX touch1) +
                (clientY touch2 - clientY touch1) * (clientY touch2 - clientY touch1))
    in (0 < initialDistance (gestureState w) \<longrightarrow>
          scale (gestureState w') = currentDistance / initialDistance (gestureState w)) \<and>
       (initialDistance (gestureState w) = 0 \<longrightarrow> scale (gestureState w') = scale (gestureState w)) \<and>
       gestures (sent w w') =
         (''pinch'', PinchData (scale (gestureState w'))
            ((clientX touch1 + clientX touch2) / 2) ((clientY touch1 + clientY touch2) / 2)) #
         (if ENABLE_ROTATE cfg
          then [(''rotate'', RotateData (rotation (gestureState w'))
                   ((clientX touch1 + clientX touch2) / 2) ((clientY touch1 + clientY touch2) / 2))]
          else [])"
    by (simp add: handleMultiTouchMove_pinch Let_def)
  show "isTouching (touchState w) \<and> ENABLE_PINCH_ZOOM cfg \<and> touches event = [touch1, touch2] \<longrightarrow>
      (\<exists>w'. handleTouchMove cfg clk event w = Some w' \<and>
         scale (gestureState w') =
           scale (gestureState (handleMultiTouchMove cfg clk touch1 touch2 w)) \<and>
         gestures (sent w w') = gestures (sent w (handleMultiTouchMove cfg clk touch1 touch2 w)))"
  proof
    assume a: "isTouching (touchState w) \<and> ENABLE_PINCH_ZOOM cfg \<and> touches event = [touch1, touch2]"
    then obtain w1 where m: "handleTouchMove cfg clk event w =
        Some (dispatchTouchEvent ''touchmove'' event (handleMultiTouchMove cfg clk touch1 touch2 w1))"
      and g: "gestureState w1 = gestureState w" and e: "emitted w1 = emitted w"
      using handleTouchMove_two [of w cfg event touch1 touch2 clk] by blast
    have sc: "scale (gestureState (handleMultiTouchMove cfg clk touch1 touch2 w1)) =
              scale (gestureState (handleMultiTouchMove cfg clk touch1 touch2 w))"
      by (simp add: handleMultiTouchMove_pinch(1) g)
    have "sent w (dispatchTouchEvent ''touchmove'' event
                    (handleMultiTouchMove cfg clk touch1 touch2 w1)) =
          sent w1 (dispatchTouchEvent ''touchmove'' event
                    (handleMultiTouchMove cfg clk touch1 touch2 w1))"
      by (simp add: sent_def e)
    also have "gestures \<dots> = gestures (sent w1 (handleMultiTouchMove cfg clk touch1 touch2 w1))"
      by (simp add: handleMultiTouchMove_def service_defs sent_defs split: option.split)
    also have "\<dots> = gestures (sent w (handleMultiTouchMove cfg clk touch1 touch2 w))"
      by (simp add: handleMultiTouchMove_def dispatchGestureEvent_def emit_def sent_defs g)
    finally show "\<exists>w'. handleTouchMove cfg clk event w = Some w' \<and>
         scale (gestureState w') =
           scale (gestureState (handleMultiTouchMove cfg clk touch1 touch2 w)) \<and>
         gestures (sent w w') = gestures (sent w (handleMultiTouchMove cfg clk touch1 touch2 w))"
      using m sc by (simp add: dispatchTouchEvent_fields)
  qed
  show "ENABLE_PINCH_ZOOM TouchConfig"
    by (simp add: TouchConfig_def)
  show "observe TouchConfig
     [(0, TouchStart (contactsAt 0 0 100 0)), (50, TouchMove (contactsAt 0 0 150 0))] TouchHandler =
   Some [(''pinch'', PinchData (3 / 2) 75 0), (''rotate'', RotateData 0 75 0)]"
    by (rule pinch_scenario)
qed

text \<open>
  Two contacts at (0,0) and (150,0), once with reference distance 100 and once with
  reference distance 0.
\<close>

theorem pinch_scale_and_center_witness:
  "0 < initialDistance (gestureState (pinching 100)) \<and>
   scale (gestureState (handleMultiTouchMove TouchConfig (always 50)
       \<lparr>clientX = 0, clientY = 0\<rparr> \<lparr>clientX = 150, clientY = 0\<rparr> (pinching 100))) = 3 / 2 \<and>
   initialDistance (gestureState (pinching 0)) = 0 \<and>
   scale (gestureState (handleMultiTouchMove TouchConfig (always 50)
       \<lparr>clientX = 0, clientY = 0\<rparr> \<lparr>clientX = 150, clientY = 0\<rparr> (pinching 0))) = 1 \<and>
   isTouching (touchState (pinching 100)) \<and> ENABLE_PINCH_ZOOM TouchConfig \<and>
   touches (contactsAt 0 0 150 0) = [\<lparr>clientX = 0, clientY = 0\<rparr>, \<lparr>clientX = 150, clientY = 0\<rparr>] \<and>
   map_option (gestures \<circ> sent (pinching 100))
     (handleTouchMove TouchConfig (always 50) (contactsAt 0 0 150 0) (pinching 100)) =
   Some [(''pinch'', PinchData (3 / 2) 75 0), (''rotate'', RotateData 0 75 0)]"
  using pinch_scale_and_center [of TouchConfig "always 50" "\<lparr>clientX = 0, clientY = 0\<rparr>"
      "\<lparr>clientX = 150, clientY = 0\<rparr>" "pinching 100" "contactsAt 0 0 150 0"]
    pinch_scale_and_center [of TouchConfig "always 50" "\<lparr>clientX = 0, clientY = 0\<rparr>"
      "\<lparr>clientX = 150, clientY = 0\<rparr>" "pinching 0" "contactsAt 0 0 150 0"]
  by (simp add: scenario_defs world_defs sqrt_22500 atan2_def)

section \<open>Long press\<close>

text \<open>
  Claim C7. A callback that is still in the host's table when its deadline has come
  runs \<^verbatim>\<open>triggerLongPress\<close>: exactly one gesture is sent, a \<^verbatim>\<open>longpress\<close> with the current
  position at that moment and \<^verbatim>\<open>LONG_PRESS_DURATION\<close> (500 in \<open>TouchConfig\<close>) as duration;
  \<^verbatim>\<open>touchState\<close> is left as it was, so an active session stays active; and the callback is
  gone from the table, so it cannot run again. The callback that \<^verbatim>\<open>handleTouchStart\<close> arms
  at time \<open>T\<close> has the deadline \<open>T\<close> plus \<^verbatim>\<open>LONG_PRESS_DURATION\<close>.
\<close>

theorem long_press_fires_once:
  assumes "map_of (timers w) h = Some deadline" and "deadline \<le> now"
  shows "(\<exists>w'. timerFires cfg now h w = Some w' \<and>
           gestures (sent w w') =
             [(''longpress'', PointData (currentX (touchState w)) (currentY (touchState w))
                 (LONG_PRESS_DURATION cfg))] \<and>
           touchState w' = touchState w \<and>
           (isTouching (touchState w) \<longrightarrow> isTouching (touchState w')) \<and>
           (\<forall>t. timerFires cfg t h w' = None)) \<and>
         LONG_PRESS_DURATION TouchConfig = 500 \<and>
         (handlesIssued w0 \<and> handleTouchStart cfg T e w0 = Some w1 \<longrightarrow>
            longPressTimer (touchState w1) = Some (Suc (lastTimerId w0)) \<and>
            map_of (timers w1) (Suc (lastTimerId w0)) = Some (T + max 0 (LONG_PRESS_DURATION cfg)))"
proof (intro conjI impI)
  let ?w' = "triggerLongPress cfg now (clearTimeout h w)"
  have fires: "timerFires cfg now h w = Some ?w'"
    using assms by (simp add: timerFires_def)
  have "sent w ?w' = sent (clearTimeout h w) ?w'"
    by (simp add: sent_def clearTimeout_def)
  then have g: "gestures (sent w ?w') =
      [(''longpress'', PointData (currentX (touchState w)) (currentY (touchState w))
          (LONG_PRESS_DURATION cfg))]"
    by (simp add: triggerLongPress_sent) (simp add: clearTimeout_def)
  have ts: "touchState ?w' = touchState w"
    by (simp add: triggerLongPress_fields clearTimeout_def)
  have gone: "timerFires cfg t h ?w' = None" for t
    by (simp add: timerFires_def triggerLongPress_fields clearTimeout_def map_of_cleared)
  from fires g ts gone
  show "\<exists>w'. timerFires cfg now h w = Some w' \<and>
           gestures (sent w w') =
             [(''longpress'', PointData (currentX (touchState w)) (currentY (touchState w))
                 (LONG_PRESS_DURATION cfg))] \<and>
           touchState w' = touchState w \<and>
           (isTouching (touchState w) \<longrightarrow> isTouching (touchState w')) \<and>
           (\<forall>t. timerFires cfg t h w' = None)"
    by simp
  show "LONG_PRESS_DURATION TouchConfig = 500"
    by (simp add: TouchConfig_def)
next
  assume a: "handlesIssued w0 \<and> handleTouchStart cfg T e w0 = Some w1"
  then have s: "handleTouchStart cfg T e w0 = Some w1"
    by simp
  show "longPressTimer (touchState w1) = Some (Suc (lastTimerId w0))"
    by (rule handleTouchStart_timer(3) [OF s])
  show "map_of (timers w1) (Suc (lastTimerId w0)) = Some (T + max 0 (LONG_PRESS_DURATION cfg))"
    using a handleTouchStart_timer(1) [OF s] armed_deadline [of w0] by simp
qed

text \<open>A contact held at (3,4) since time 0; its callback runs at 500.\<close>

theorem long_press_fires_once_witness:
  "map_of (timers (pressed 3 4 0 0)) 1 = Some 500 \<and> (500::real) \<le> 500 \<and>
   map_option (gestures \<circ> sent (pressed 3 4 0 0))
     (timerFires TouchConfig 500 1 (pressed 3 4 0 0)) =
     Some [(''longpress'', PointData 3 4 500)] \<and>
   map_option (isTouching \<circ> touchState) (timerFires TouchConfig 500 1 (pressed 3 4 0 0)) =
     Some True \<and>
   observe TouchConfig [(0, TouchStart (contactAt 3 4)), (500, TimerFires 1)] TouchHandler =
     Some [(''longpress'', PointData 3 4 500)] \<and>
   run TouchConfig [(0, TouchStart (contactAt 3 4)), (500, TimerFires 1), (501, TimerFires 1)]
     TouchHandler = None"
proof -
  have "map_option (gestures \<circ> sent (pressed 3 4 0 0))
     (timerFires TouchConfig 500 1 (pressed 3 4 0 0)) =
     Some [(''longpress'', PointData 3 4 500)] \<and>
   map_option (isTouching \<circ> touchState) (timerFires TouchConfig 500 1 (pressed 3 4 0 0)) =
     Some True"
    using long_press_fires_once [of "pressed 3 4 0 0" 1 500 500 TouchConfig, THEN conjunct1]
    by (auto simp add: world_defs TouchConfig_def)
  then show ?thesis
    by (simp add: scenario_defs world_defs)
qed

lemma no_longpress:
  assumes "list_all P gs" and "\<And>g. P g \<Longrightarrow> fst g \<noteq> ''longpress''"
  shows "''longpress'' \<notin> fst ` set gs"
  using assms by (fastforce simp add: list_all_iff)

text \<open>
  What a move does to the long-press timer. Every \<^verbatim>\<open>handleTouchMove\<close> with a session active
  clears the callback whose handle is in \<^verbatim>\<open>touchState.longPressTimer\<close> and sets the field to
  null, whatever the positions in the event: that callback can never run afterwards. For
  a contact start, a move and an end: the callback armed by the start cannot run before
  its deadline, the start time plus \<^verbatim>\<open>LONG_PRESS_DURATION\<close>; after the move it is no longer
  in the table, which is again the table from before the start; and the three handlers
  themselves send no \<^verbatim>\<open>longpress\<close>. A callback that was in the table before the start
  stays there.
\<close>

lemma move_disarms_recorded_callback:
  "(handlesIssued wa \<and> isTouching (touchState wa) \<and> touches event \<noteq> [] \<longrightarrow>
      (\<exists>w'. handleTouchMove cfg clk event wa = Some w' \<and>
         longPressTimer (touchState w') = None \<and>
         (\<forall>h t. longPressTimer (touchState wa) = Some h \<longrightarrow> timerFires cfg t h w' = None))) \<and>
   (handlesIssued w \<and> touches e1 \<noteq> [] \<and> touches e2 \<noteq> [] \<longrightarrow>
      (\<exists>w1 w2 h deadline.
         handleTouchStart cfg t0 e1 w = Some w1 \<and>
         longPressTimer (touchState w1) = Some h \<and>
         map_of (timers w1) h = Some deadline \<and>
         deadline = t0 + max 0 (LONG_PRESS_DURATION cfg) \<and>
         (\<forall>t. t < deadline \<longrightarrow> timerFires cfg t h w1 = None) \<and>
         handleTouchMove cfg clk e2 w1 = Some w2 \<and>
         longPressTimer (touchState w2) = None \<and>
         timers w2 = timers w \<and>
         (\<forall>t. timerFires cfg t h w2 = None) \<and>
         timers (handleTouchEnd cfg clk' e3 w2) = timers w \<and>
         (\<forall>t. timerFires cfg t h (handleTouchEnd cfg clk' e3 w2) = None) \<and>
         ''longpress'' \<notin> fst ` set (gestures (sent w (handleTouchEnd cfg clk' e3 w2)))))"
proof (intro conjI impI)
  assume a: "handlesIssued wa \<and> isTouching (touchState wa) \<and> touches event \<noteq> []"
  then obtain w' where m: "handleTouchMove cfg clk event wa = Some w'"
    and t: "timers w' = timers (clearLongPressTimer wa)"
    and l: "longPressTimer (touchState w') = longPressTimer (touchState (clearLongPressTimer wa))"
    using handleTouchMove_active [of wa event cfg clk] by blast
  have "longPressTimer (touchState w') = None"
    using a l clearLongPressTimer_disarms(1) [of wa] by simp
  moreover have "timerFires cfg t' h w' = None" if "longPressTimer (touchState wa) = Some h" for h t'
    using a t that clearLongPressTimer_disarms(2) [of wa h] by (simp add: timerFires_unarmed)
  ultimately show "\<exists>w'. handleTouchMove cfg clk event wa = Some w' \<and>
         longPressTimer (touchState w') = None \<and>
         (\<forall>h t. longPressTimer (touchState wa) = Some h \<longrightarrow> timerFires cfg t h w' = None)"
    using m by blast
next
  assume a: "handlesIssued w \<and> touches e1 \<noteq> [] \<and> touches e2 \<noteq> []"
  let ?h = "Suc (lastTimerId w)"
  let ?d = "t0 + max 0 (LONG_PRESS_DURATION cfg)"
  from a obtain w1 where s: "handleTouchStart cfg t0 e1 w = Some w1"
    using handleTouchStart_total [of e1 cfg t0 w] by blast
  note st = handleTouchStart_timer [OF s]
  have i1: "handlesIssued w1"
    using a s by (blast intro: handlesIssued_start)
  have dl: "map_of (timers w1) ?h = Some ?d"
    using a st(1) armed_deadline [of w ?d] by simp
  have early: "timerFires cfg t ?h w1 = None" if "t < ?d" for t
    using dl that by (simp add: timerFires_def)
  from a st(4) obtain w2 where m: "handleTouchMove cfg clk e2 w1 = Some w2"
    and t2: "timers w2 = timers (clearLongPressTimer w1)"
    and l2: "longPressTimer (touchState w2) = longPressTimer (touchState (clearLongPressTimer w1))"
    and a2: "isTouching (touchState w2)"
    using handleTouchMove_active [of w1 e2 cfg clk] by blast
  have none2: "longPressTimer (touchState w2) = None"
    using l2 clearLongPressTimer_disarms(1) [OF i1] by simp
  have tw2: "timers w2 = timers w"
    using a t2 st(1,3) clear_after_arm [of w w1 ?d] by simp
  have free: "map_of (timers w) ?h = None"
    using a handlesIssued_fresh(1) [of w] by simp
  have gone2: "timerFires cfg t ?h w2 = None" for t
    using tw2 free by (simp add: timerFires_unarmed)
  let ?w3 = "handleTouchEnd cfg clk' e3 w2"
  have "timers (clearLongPressTimer w2) = timers w2"
    using none2 by (simp add: clearLongPressTimer_def)
  then have tw3: "timers ?w3 = timers w"
    using tw2 handleTouchEnd_active(1) [OF a2, of cfg clk' e3] by simp
  have gone3: "timerFires cfg t ?h ?w3 = None" for t
    using tw3 free by (simp add: timerFires_unarmed)
  obtain o1 where e1: "emitted w1 = emitted w @ o1" and g1: "gestures o1 = []"
    using handleTouchStart_sent [OF s] by blast
  obtain o2 where e2: "emitted w2 = emitted w1 @ o2"
    and g2: "list_all (\<lambda>g. fst g = ''pinch'' \<or> fst g = ''rotate'') (gestures o2)"
    using handleTouchMove_sent [OF m] by blast
  obtain o3 where e3: "emitted ?w3 = emitted w2 @ o3"
    and g3: "list_all (\<lambda>g. fst g = ''tap'' \<or> fst g = ''doubletap'' \<or> fst g = ''swipe'')
               (gestures o3)"
    using handleTouchEnd_sent [of cfg clk' e3 w2] by blast
  have "sent w ?w3 = o1 @ o2 @ o3"
    using e1 e2 e3 by (simp add: sent_def)
  then have "gestures (sent w ?w3) = gestures o2 @ gestures o3"
    using g1 by (simp add: gestures_append)
  moreover have "''longpress'' \<notin> fst ` set (gestures o2)"
    using g2 by (rule no_longpress) auto
  moreover have "''longpress'' \<notin> fst ` set (gestures o3)"
    using g3 by (rule no_longpress) auto
  ultimately have quiet: "''longpress'' \<notin> fst ` set (gestures (sent w ?w3))"
    by (simp add: image_Un)
  show "\<exists>w1 w2 h deadline.
         handleTouchStart cfg t0 e1 w = Some w1 \<and>
         longPressTimer (touchState w1) = Some h \<and>
         map_of (timers w1) h = Some deadline \<and>
         deadline = t0 + max 0 (LONG_PRESS_DURATION cfg) \<and>
         (\<forall>t. t < deadline \<longrightarrow> timerFires cfg t h w1 = None) \<and>
         handleTouchMove cfg clk e2 w1 = Some w2 \<and>
         longPressTimer (touchState w2) = None \<and>
         timers w2 = timers w \<and>
         (\<forall>t. timerFires cfg t h w2 = None) \<and>
         timers (handleTouchEnd cfg clk' e3 w2) = timers w \<and>
         (\<forall>t. timerFires cfg t h (handleTouchEnd cfg clk' e3 w2) = None) \<and>
         ''longpress'' \<notin> fst ` set (gestures (sent w (handleTouchEnd cfg clk' e3 w2)))"
    using s st(3) dl early m none2 tw2 gone2 tw3 gone3 quiet by blast
qed

text \<open>
  Claim C3. \<^verbatim>\<open>handleTouchMove\<close> clears the callback whose handle is in
  \<^verbatim>\<open>touchState.longPressTimer\<close> and no other (\<open>move_disarms_recorded_callback\<close>), and
  \<^verbatim>\<open>handleTouchStart\<close> overwrites that handle without clearing its callback, the defect of
  claim C4. A first finger down at clock 10000 and a second finger down at 10100 arm two
  callbacks; the move at 10150, with the session active, clears only the second, and so
  does the end at 10450: the handler is idle with the first callback pending for 10500.
  A new contact then starts at 10460, moves at 10470 and ends at 10700, 240 ms in all,
  and the old callback runs at 10500 in the middle of it: a \<^verbatim>\<open>longpress\<close> is sent, at the
  position of the new contact, after its move.
\<close>

theorem stale_callback_fires_after_move:
  "map_option timers
     (run TouchConfig
        [(10000, TouchStart (contactAt 0 0)), (10100, TouchStart (contactsAt 0 0 100 0)),
         (10150, TouchMove (contactsAt 0 0 100 0))] TouchHandler) = Some [(1, 10500)] \<and>
   map_option (isTouching \<circ> touchState)
     (run TouchConfig
        [(10000, TouchStart (contactAt 0 0)), (10100, TouchStart (contactsAt 0 0 100 0)),
         (10150, TouchMove (contactsAt 0 0 100 0))] TouchHandler) = Some True \<and>
   map_option timers
     (run TouchConfig
        [(10000, TouchStart (contactAt 0 0)), (10100, TouchStart (contactsAt 0 0 100 0)),
         (10150, TouchMove (contactsAt 0 0 100 0)), (10450, TouchEnd released)] TouchHandler) =
     Some [(1, 10500)] \<and>
   observe TouchConfig
     [(10000, TouchStart (contactAt 0 0)), (10100, TouchStart (contactsAt 0 0 100 0)),
      (10150, TouchMove (contactsAt 0 0 100 0)), (10450, TouchEnd released)] TouchHandler =
     Some [(''pinch'', PinchData 1 50 0), (''rotate'', RotateData 0 50 0)] \<and>
   observe TouchConfig
     [(10000, TouchStart (contactAt 0 0)), (10100, TouchStart (contactsAt 0 0 100 0)),
      (10150, TouchMove (contactsAt 0 0 100 0)), (10450, TouchEnd released),
      (10460, TouchStart (contactAt 9 7)), (10470, TouchMove (contactAt 12 11)),
      (10500, TimerFires 1), (10700, TouchEnd released)] TouchHandler =
     Some [(''pinch'', PinchData 1 50 0), (''rotate'', RotateData 0 50 0),
           (''longpress'', PointData 12 11 500), (''tap'', PointData 12 11 240)]"
  by (simp add: scenario_defs sqrt_10000 sqrt_25 atan2_def)

text \<open>
  Claim C4. \<^verbatim>\<open>handleTouchStart\<close> stores the handle of the new callback over the old one
  without clearing the old callback, which \<^verbatim>\<open>handleTouchMove\<close>, \<^verbatim>\<open>handleTouchEnd\<close> and
  \<^verbatim>\<open>handleTouchCancel\<close> all do before they drop a handle. A first finger down at 0 and a
  second finger down at 100 leave two callbacks pending, with deadlines 500 and 600; the
  move at 200 clears only the second, and the first runs at 500 in the middle of the
  pinch.
\<close>

theorem second_start_leaves_two_callbacks:
  "map_option timers
     (run TouchConfig
        [(0, TouchStart (contactAt 0 0)), (100, TouchStart (contactsAt 0 0 100 0))] TouchHandler) =
     Some [(1, 500), (2, 600)] \<and>
   observe TouchConfig
     [(0, TouchStart (contactAt 0 0)), (100, TouchStart (contactsAt 0 0 100 0)),
      (200, TouchMove (contactsAt 0 0 150 0)), (500, TimerFires 1)] TouchHandler =
     Some [(''pinch'', PinchData (3 / 2) 75 0), (''rotate'', RotateData 0 75 0),
           (''longpress'', PointData 0 0 500)]"
  by (simp add: scenario_defs sqrt_10000 sqrt_22500 atan2_def)

section \<open>What the end and the cancel of a contact reset\<close>

text \<open>
  Claim C5, as stated. \<^verbatim>\<open>handleTouchEnd\<close> writes \<^verbatim>\<open>isTouching\<close>, \<^verbatim>\<open>touchCount\<close> and
  \<^verbatim>\<open>longPressTimer\<close> only. After two contacts 100 apart have moved to 150 apart and the
  contact has ended, the contact count is 0 and \<^verbatim>\<open>gestureState\<close> still holds the reference
  distance 100 and the scale 3/2, not the values it starts with.
\<close>

theorem gesture_state_survives_touch_end:
  "map_option gestureState
     (run TouchConfig
        [(0, TouchStart (contactsAt 0 0 100 0)), (50, TouchMove (contactsAt 0 0 150 0)),
         (100, TouchEnd released)] TouchHandler) =
     Some \<lparr>scale = 3 / 2, rotation = 0, initialDistance = 100, initialAngle = 0\<rparr> \<and>
   map_option (touchCount \<circ> touchState)
     (run TouchConfig
        [(0, TouchStart (contactsAt 0 0 100 0)), (50, TouchMove (contactsAt 0 0 150 0)),
         (100, TouchEnd released)] TouchHandler) = Some 0 \<and>
   gestureState TouchHandler = \<lparr>scale = 1, rotation = 0, initialDistance = 0, initialAngle = 0\<rparr>"
  by (simp add: scenario_defs sqrt_10000 sqrt_22500 atan2_def)

text \<open>
  Claim C5, amended. With a session active, \<^verbatim>\<open>handleTouchEnd\<close> sets \<^verbatim>\<open>isTouching\<close> to false
  and \<^verbatim>\<open>touchCount\<close> to 0 and clears the callback whose handle is in \<^verbatim>\<open>longPressTimer\<close>,
  whatever gesture it classifies; it leaves \<^verbatim>\<open>gestureState\<close>, the start position and time
  and the current position as they were. \<^verbatim>\<open>gestureState\<close> is written only by a contact
  start or move with exactly two contacts: a start or a move with another number of
  contacts and a cancel leave it as it was.
\<close>

theorem touch_end_resets_contact_flags_only:
  assumes "handlesIssued w" and "isTouching (touchState w)"
  shows "(let w' = handleTouchEnd cfg clk event w
          in isTouching (touchState w') = False \<and> touchCount (touchState w') = 0 \<and>
             longPressTimer (touchState w') = None \<and>
             (\<forall>h t. longPressTimer (touchState w) = Some h \<longrightarrow> timerFires cfg t h w' = None) \<and>
             gestureState w' = gestureState w \<and>
             startX (touchState w') = startX (touchState w) \<and>
             startY (touchState w') = startY (touchState w) \<and>
             startTime (touchState w') = startTime (touchState w) \<and>
             currentX (touchState w') = currentX (touchState w) \<and>
             currentY (touchState w') = currentY (touchState w)) \<and>
         (\<forall>wa wb. handleTouchStart cfg now e1 wa = Some wb \<and> length (touches e1) \<noteq> 2 \<longrightarrow>
            gestureState wb = gestureState wa) \<and>
         (\<forall>wa wb. handleTouchMove cfg clk e2 wa = Some wb \<and> length (touches e2) \<noteq> 2 \<longrightarrow>
            gestureState wb = gestureState wa) \<and>
         gestureState (handleTouchCancel e3 w) = gestureState w"
proof -
  let ?w' = "handleTouchEnd cfg clk event w"
  note e = handleTouchEnd_active [OF assms(2), of cfg clk event]
  have "longPressTimer (touchState ?w') = None"
    using e(3) clearLongPressTimer_disarms(1) [OF assms(1)] by simp
  moreover have "timerFires cfg t h ?w' = None" if "longPressTimer (touchState w) = Some h" for h t
    using e(1) that clearLongPressTimer_disarms(2) [OF assms(1), of h]
    by (simp add: timerFires_unarmed)
  ultimately show ?thesis
    using e(4-11) handleTouchStart_gestureState [of cfg now e1]
      handleTouchMove_gestureState [of cfg clk e2]
    by (simp add: Let_def handleTouchCancel_fields)
qed

text \<open>Two contacts with reference distance 100, lifted at 600.\<close>

theorem touch_end_resets_contact_flags_only_witness:
  "handlesIssued (pinching 100) \<and> isTouching (touchState (pinching 100)) \<and>
   isTouching (touchState (handleTouchEnd TouchConfig (always 600) released (pinching 100))) = False \<and>
   touchCount (touchState (handleTouchEnd TouchConfig (always 600) released (pinching 100))) = 0 \<and>
   timers (handleTouchEnd TouchConfig (always 600) released (pinching 100)) = [] \<and>
   gestureState (handleTouchEnd TouchConfig (always 600) released (pinching 100)) =
     \<lparr>scale = 1, rotation = 0, initialDistance = 100, initialAngle = 0\<rparr>"
  using touch_end_resets_contact_flags_only
      [of "pinching 100" TouchConfig "always 600" released, THEN conjunct1]
  by (simp add: handleTouchEnd_def handleTap_def handleSwipe_def clearLongPressTimer_def
      service_defs TouchConfig_def released_def world_defs handlesIssued_def always_def Let_def)

text \<open>
  Claim C9, as stated. \<^verbatim>\<open>handleTouchCancel\<close> does not write \<^verbatim>\<open>gestureState\<close> either: after
  the same pinch and a cancel, no session is active and \<^verbatim>\<open>gestureState\<close> still holds the
  reference distance 100 and the scale 3/2.
\<close>

theorem gesture_state_survives_touch_cancel:
  "map_option gestureState
     (run TouchConfig
        [(0, TouchStart (contactsAt 0 0 100 0)), (50, TouchMove (contactsAt 0 0 150 0)),
         (100, TouchCancel released)] TouchHandler) =
     Some \<lparr>scale = 3 / 2, rotation = 0, initialDistance = 100, initialAngle = 0\<rparr> \<and>
   map_option (isTouching \<circ> touchState)
     (run TouchConfig
        [(0, TouchStart (contactsAt 0 0 100 0)), (50, TouchMove (contactsAt 0 0 150 0)),
         (100, TouchCancel released)] TouchHandler) = Some False \<and>
   gestureState TouchHandler = \<lparr>scale = 1, rotation = 0, initialDistance = 0, initialAngle = 0\<rparr>"
  by (simp add: scenario_defs sqrt_10000 sqrt_22500 atan2_def)

text \<open>
  Claim C9, amended. \<^verbatim>\<open>handleTouchCancel\<close> clears the callback whose handle is in
  \<^verbatim>\<open>longPressTimer\<close> and sets the field to null, sets \<^verbatim>\<open>isTouching\<close> to false and
  \<^verbatim>\<open>touchCount\<close> to 0, and sends no gesture; it leaves \<^verbatim>\<open>gestureState\<close> as it was.
\<close>

theorem touch_cancel_disarms_and_stays_silent:
  assumes "handlesIssued w"
  shows "(let w' = handleTouchCancel event w
          in longPressTimer (touchState w') = None \<and>
             (\<forall>h t. longPressTimer (touchState w) = Some h \<longrightarrow> timerFires cfg t h w' = None) \<and>
             isTouching (touchState w') = False \<and> touchCount (touchState w') = 0 \<and>
             gestures (sent w w') = [] \<and>
             gestureState w' = gestureState w)"
proof -
  let ?w' = "handleTouchCancel event w"
  note c = handleTouchCancel_fields [of event w]
  have "longPressTimer (touchState ?w') = None"
    using c(3) clearLongPressTimer_disarms(1) [OF assms] by simp
  moreover have "timerFires cfg t h ?w' = None" if "longPressTimer (touchState w) = Some h" for h t
    using c(1) that clearLongPressTimer_disarms(2) [OF assms, of h]
    by (simp add: timerFires_unarmed)
  ultimately show ?thesis
    using c(4-6) by (simp add: Let_def handleTouchCancel_sent)
qed

text \<open>Two contacts with reference distance 100 and a callback armed, then a cancel.\<close>

theorem touch_cancel_disarms_and_stays_silent_witness:
  "handlesIssued (pinching 100) \<and>
   longPressTimer (touchState (handleTouchCancel released (pinching 100))) = None \<and>
   timers (handleTouchCancel released (pinching 100)) = [] \<and>
   isTouching (touchState (handleTouchCancel released (pinching 100))) = False \<and>
   gestures (sent (pinching 100) (handleTouchCancel released (pinching 100))) = [] \<and>
   gestureState (handleTouchCancel released (pinching 100)) =
     \<lparr>scale = 1, rotation = 0, initialDistance = 100, initialAngle = 0\<rparr>"
  using touch_cancel_disarms_and_stays_silent [of "pinching 100" released TouchConfig]
  by (simp add: handleTouchCancel_def clearLongPressTimer_def timerFires_def service_defs
      released_def world_defs handlesIssued_def sent_defs)

end
